theory Spec2Isabelle
  imports Complex_Main "HOL-Library.Log_Nat"
begin

section \<open>Food waste prediction: risk scoring and recommendations\<close>

text \<open>
  A shallow embedding of \<^verbatim>\<open>models.py\<close> (the parts of \<^verbatim>\<open>FoodItem\<close> and
  \<^verbatim>\<open>FoodCategory\<close> that the scoring code reads), of
  \<^verbatim>\<open>utils/waste_predictor.py\<close> (class \<^verbatim>\<open>WastePredictor\<close>) and of
  \<^verbatim>\<open>utils/recommender.py\<close> (class \<^verbatim>\<open>WasteReductionRecommender\<close>).

  Conventions of the embedding:
  \<^item> a calendar date is its day number (an \<open>int\<close>); the difference of two dates,
    \<^verbatim>\<open>(a - b).days\<close>, is the difference of the day numbers. The current date
    (\<^verbatim>\<open>datetime.now().date()\<close>, \<^verbatim>\<open>date.today()\<close>) is the explicit
    argument \<open>today\<close> of every function that reads the clock;
  \<^item> a \<^verbatim>\<open>Numeric\<close> column holds a decimal, modelled as the rational it denotes
    (\<open>rat\<close>). A Python float is modelled as the rational that the double denotes:
    \<^verbatim>\<open>float(x)\<close>, each float literal (\<^verbatim>\<open>0.40\<close>, \<^verbatim>\<open>1.5\<close>, \<^verbatim>\<open>0.8\<close>,
    \<^verbatim>\<open>0.1\<close>) and each float operation rounds to the nearest double, ties to even
    (\<open>to_float\<close>). The exponent is not bounded: the model is the IEEE 754 arithmetic
    of the interpreter as long as no value overflows or becomes subnormal, which the
    columns (\<^verbatim>\<open>Numeric(10, 2)\<close>, \<^verbatim>\<open>Numeric(5, 2)\<close>) and the day counts
    guarantee. Python compares a float with an int exactly, and so does the model;
  \<^item> \<^verbatim>\<open>float(food_item.waste_risk_score)\<close> is only ever compared with an integer
    or with the alert threshold; rounding to nearest is monotone and keeps integers, so
    for a stored score the comparison is that of the decimal, which the model uses;
  \<^item> a Python exception is a value \<open>Inl e\<close> of the result type; a division is the
    fallible \<open>py_truediv\<close>, so that a guard the code needs is needed in the model too;
  \<^item> a Python \<^verbatim>\<open>str\<close> is the \<open>string\<close> of its UTF-8 bytes.
\<close>

subsection \<open>Python primitives\<close>

datatype py_error = ZeroDivisionError | KeyError

text \<open>
  Rounding to the nearest double. For \<open>x > 0\<close>, \<open>binade x\<close> is the exponent \<open>e\<close> with
  \<open>2 ^ e \<le> x < 2 ^ (e + 1)\<close>; the 53-bit significand is \<open>x / 2 ^ (e - 52)\<close> rounded to
  the nearest integer, a tie going to the even one.
\<close>

definition round_half_even :: "rat \<Rightarrow> int" where
  "round_half_even x =
     (let n = \<lfloor>x\<rfloor>; r = x - of_int n in
      if r < 1 / 2 then n else if r > 1 / 2 then n + 1 else if even n then n else n + 1)"

definition binade :: "rat \<Rightarrow> int" where
  "binade x =
     (let (p, q) = quotient_of x; k = bitlen p - bitlen q in
      if 2 powi k \<le> x then k else k - 1)"

definition to_float :: "rat \<Rightarrow> rat" where
  "to_float x =
     (if x = 0 then 0
      else
        let e = binade \<bar>x\<bar> - 52 in
        sgn x * of_int (round_half_even (\<bar>x\<bar> / 2 powi e)) * 2 powi e)"

text \<open>An int operand of a float operation is converted to a float first.\<close>

definition int_to_float :: "int \<Rightarrow> rat" where
  "int_to_float n = to_float (of_int n)"

text \<open>\<^verbatim>\<open>a + b\<close>, \<^verbatim>\<open>a - b\<close> and \<^verbatim>\<open>a * b\<close> on floats.\<close>

definition float_add :: "rat \<Rightarrow> rat \<Rightarrow> rat" where
  "float_add a b = to_float (a + b)"

definition float_sub :: "rat \<Rightarrow> rat \<Rightarrow> rat" where
  "float_sub a b = to_float (a - b)"

definition float_mul :: "rat \<Rightarrow> rat \<Rightarrow> rat" where
  "float_mul a b = to_float (a * b)"

text \<open>\<^verbatim>\<open>a / b\<close> on floats: raises on a zero divisor.\<close>

definition py_truediv :: "rat \<Rightarrow> rat \<Rightarrow> py_error + rat" where
  "py_truediv a b = (if b = 0 then Inl ZeroDivisionError else Inr (to_float (a / b)))"

text \<open>
  The builtin \<^verbatim>\<open>sum\<close> over floats depends on the interpreter: up to CPython 3.11
  it adds from left to right, each addition rounded (\<open>sum_left_to_right\<close>); from
  CPython 3.12 it carries Neumaier's compensation term and adds it at the end
  (\<open>sum_compensated\<close>). The functions that call \<^verbatim>\<open>sum\<close> take the summation as
  their first argument \<open>fsum\<close>.
\<close>

definition sum_left_to_right :: "rat list \<Rightarrow> rat" where
  "sum_left_to_right xs = foldl float_add 0 xs"

fun neumaier :: "rat \<Rightarrow> rat \<Rightarrow> rat list \<Rightarrow> rat" where
  "neumaier hi lo [] = (if lo \<noteq> 0 then float_add hi lo else hi)"
| "neumaier hi lo (x # xs) =
     (let t = float_add hi x;
          lo' = (if \<bar>hi\<bar> \<ge> \<bar>x\<bar> then float_add lo (float_add (float_sub hi t) x)
                 else float_add lo (float_add (float_sub x t) hi))
      in neumaier t lo' xs)"

definition sum_compensated :: "rat list \<Rightarrow> rat" where
  "sum_compensated xs = neumaier 0 0 xs"

text \<open>Sequencing of fallible computations: the first exception propagates.\<close>

definition and_then :: "py_error + 'a \<Rightarrow> ('a \<Rightarrow> py_error + 'b) \<Rightarrow> py_error + 'b" where
  "and_then m f = (case m of Inl e \<Rightarrow> Inl e | Inr v \<Rightarrow> f v)"

subsection \<open>The data model (\<^verbatim>\<open>models.py\<close>)\<close>

type_synonym date = int

datatype perishability = Low | Medium | High

datatype item_status = Active | Consumed | Wasted | Donated

record FoodCategory =
  category_name :: string
  perishability_level :: perishability

text \<open>
  \<open>consumption_logs\<close> holds \<^verbatim>\<open>quantity_consumed\<close> of each log of the item, and
  \<open>category\<close> the row that the relationship \<^verbatim>\<open>food_item.category\<close> loads.
  \<open>expiry_date\<close> is optional because the property \<^verbatim>\<open>days_until_expiry\<close> tests it.
\<close>

record FoodItem =
  item_name :: string
  quantity :: rat
  purchase_date :: date
  expiry_date :: "date option"
  initial_quantity :: rat
  status :: item_status
  waste_risk_score :: rat
  consumption_logs :: "rat list"
  category :: FoodCategory

text \<open>Property \<^verbatim>\<open>FoodItem.days_until_expiry\<close>.\<close>

definition days_until_expiry :: "date \<Rightarrow> FoodItem \<Rightarrow> int option" where
  "days_until_expiry today food_item =
     (case expiry_date food_item of
        Some e \<Rightarrow> Some (e - today)
      | None \<Rightarrow> None)"

text \<open>Property \<^verbatim>\<open>FoodItem.consumption_rate\<close>: the daily consumption rate.\<close>

definition consumption_rate ::
    "(rat list \<Rightarrow> rat) \<Rightarrow> date \<Rightarrow> FoodItem \<Rightarrow> py_error + rat" where
  "consumption_rate fsum today food_item =
     (if consumption_logs food_item = [] then Inr 0
      else
        let days_since_purchase = today - purchase_date food_item in
        if days_since_purchase \<le> 0 then Inr 0
        else
          let total_consumed = fsum (map to_float (consumption_logs food_item)) in
          py_truediv total_consumed (int_to_float days_since_purchase))"

subsection \<open>\<^verbatim>\<open>WastePredictor\<close>\<close>

definition SHELF_LIFE_WEIGHT :: rat where "SHELF_LIFE_WEIGHT = to_float (40 / 100)"
definition CONSUMPTION_WEIGHT :: rat where "CONSUMPTION_WEIGHT = to_float (30 / 100)"
definition QUANTITY_WEIGHT :: rat where "QUANTITY_WEIGHT = to_float (20 / 100)"
definition PERISHABILITY_WEIGHT :: rat where "PERISHABILITY_WEIGHT = to_float (10 / 100)"

definition calculate_shelf_life_risk :: "date \<Rightarrow> FoodItem \<Rightarrow> int" where
  "calculate_shelf_life_risk today food_item =
     (case days_until_expiry today food_item of
        None \<Rightarrow> 50
      | Some d \<Rightarrow>
          if d < 0 then 100
          else if d \<le> 2 then 90
          else if d \<le> 5 then 70
          else if d \<le> 10 then 50
          else if d \<le> 20 then 30
          else 10)"

text \<open>
  \<^verbatim>\<open>_calculate_consumption_risk\<close>. The property \<^verbatim>\<open>consumption_rate\<close> is read
  first, as in the source; \<^verbatim>\<open>days_until_expiry * 1.5\<close> and \<^verbatim>\<open>* 0.8\<close> are
  products of an int and a float, and \<^verbatim>\<open>days_to_consume > days_until_expiry\<close>
  compares a float with an int.
\<close>

definition calculate_consumption_risk ::
    "(rat list \<Rightarrow> rat) \<Rightarrow> date \<Rightarrow> FoodItem \<Rightarrow> py_error + int" where
  "calculate_consumption_risk fsum today food_item =
     and_then (consumption_rate fsum today food_item) (\<lambda>rate.
       let remaining_quantity = to_float (quantity food_item) in
       case days_until_expiry today food_item of
         None \<Rightarrow> Inr 100
       | Some d \<Rightarrow>
           if d \<le> 0 then Inr 100
           else if rate = 0 then
             (let days_since_purchase = today - purchase_date food_item in
              if days_since_purchase > 3 then Inr 80 else Inr 50)
           else
             and_then (if rate > 0 then py_truediv remaining_quantity rate else Inr 999)
               (\<lambda>days_to_consume.
                  if days_to_consume > float_mul (int_to_float d) (to_float (15 / 10))
                  then Inr 90
                  else if days_to_consume > of_int d then Inr 70
                  else if days_to_consume > float_mul (int_to_float d) (to_float (8 / 10))
                  then Inr 50
                  else Inr 20))"

definition calculate_quantity_risk :: "FoodItem \<Rightarrow> py_error + int" where
  "calculate_quantity_risk food_item =
     (let remaining_quantity = to_float (quantity food_item);
          initial = to_float (initial_quantity food_item) in
      if initial = 0 then Inr 0
      else
        and_then (py_truediv remaining_quantity initial) (\<lambda>ratio.
          let percentage_remaining = float_mul ratio (int_to_float 100) in
          if percentage_remaining > 80 then Inr 70
          else if percentage_remaining > 60 then Inr 50
          else if percentage_remaining > 40 then Inr 30
          else if percentage_remaining > 20 then Inr 15
          else Inr 5))"

definition calculate_perishability_risk :: "FoodItem \<Rightarrow> int" where
  "calculate_perishability_risk food_item =
     (let level = perishability_level (category food_item) in
      if level = High then 80
      else if level = Medium then 50
      else 20)"

text \<open>
  \<^verbatim>\<open>calculate_waste_risk\<close>. Each product is an int times a float; the three
  additions associate to the left.
\<close>

definition calculate_waste_risk ::
    "(rat list \<Rightarrow> rat) \<Rightarrow> date \<Rightarrow> FoodItem \<Rightarrow> py_error + rat" where
  "calculate_waste_risk fsum today food_item =
     (if status food_item \<noteq> Active then Inr 0
      else
        let shelf_life_risk = calculate_shelf_life_risk today food_item in
        and_then (calculate_consumption_risk fsum today food_item) (\<lambda>consumption_risk.
        and_then (calculate_quantity_risk food_item) (\<lambda>quantity_risk.
          let perishability_risk = calculate_perishability_risk food_item;
              risk_score =
                float_add
                  (float_add
                    (float_add
                      (float_mul (int_to_float shelf_life_risk) SHELF_LIFE_WEIGHT)
                      (float_mul (int_to_float consumption_risk) CONSUMPTION_WEIGHT))
                    (float_mul (int_to_float quantity_risk) QUANTITY_WEIGHT))
                  (float_mul (int_to_float perishability_risk) PERISHABILITY_WEIGHT)
          in Inr (min 100 (max 0 risk_score)))))"

text \<open>
  \<^verbatim>\<open>should_generate_alert(food_item, threshold=40)\<close>; the default value of the
  parameter is \<open>should_generate_alert_default\<close>.
\<close>

definition should_generate_alert :: "date \<Rightarrow> FoodItem \<Rightarrow> rat \<Rightarrow> bool" where
  "should_generate_alert today food_item threshold =
     (let risk_score = waste_risk_score food_item in
      if risk_score \<ge> threshold then True
      else
        case days_until_expiry today food_item of
          Some d \<Rightarrow> if d \<le> 3 then True else if d < 0 then True else False
        | None \<Rightarrow> False)"

definition should_generate_alert_default :: "date \<Rightarrow> FoodItem \<Rightarrow> bool" where
  "should_generate_alert_default today food_item = should_generate_alert today food_item 40"

subsection \<open>Strings\<close>

text \<open>\<^verbatim>\<open>str(n)\<close> for an int, as an f-string formats it.\<close>

definition digit_char :: "nat \<Rightarrow> char" where
  "digit_char n = ''0123456789'' ! n"

fun str_nat :: "nat \<Rightarrow> string" where
  "str_nat n = (if n < 10 then [digit_char n] else str_nat (n div 10) @ [digit_char (n mod 10)])"

declare str_nat.simps [simp del]

definition str_int :: "int \<Rightarrow> string" where
  "str_int i = (if i < 0 then CHR ''-'' # str_nat (nat (- i)) else str_nat (nat i))"

text \<open>\<^verbatim>\<open>sep.join(xs)\<close>.\<close>

fun join :: "string \<Rightarrow> string list \<Rightarrow> string" where
  "join sep [] = []"
| "join sep [x] = x"
| "join sep (x # y # ys) = x @ sep @ join sep (y # ys)"

text \<open>The emoji that open the recommendation texts, as their UTF-8 bytes.\<close>

definition emoji_warning :: string where
  "emoji_warning = [CHR 0xE2, CHR 0x9A, CHR 0xA0, CHR 0xEF, CHR 0xB8, CHR 0x8F]"
definition emoji_rotating_light :: string where
  "emoji_rotating_light = [CHR 0xF0, CHR 0x9F, CHR 0x9A, CHR 0xA8]"
definition emoji_high_voltage :: string where
  "emoji_high_voltage = [CHR 0xE2, CHR 0x9A, CHR 0xA1]"
definition emoji_calendar :: string where
  "emoji_calendar = [CHR 0xF0, CHR 0x9F, CHR 0x93, CHR 0x85]"
definition emoji_alarm_clock :: string where
  "emoji_alarm_clock = [CHR 0xE2, CHR 0x8F, CHR 0xB0]"
definition emoji_snail :: string where
  "emoji_snail = [CHR 0xF0, CHR 0x9F, CHR 0x90, CHR 0x8C]"
definition emoji_check_mark :: string where
  "emoji_check_mark = [CHR 0xE2, CHR 0x9C, CHR 0x85]"

subsection \<open>\<^verbatim>\<open>WasteReductionRecommender\<close>\<close>

text \<open>
  A recommendation is the dictionary \<^verbatim>\<open>{'type': ..., 'priority': ..., 'text': ...}\<close>.
  Its \<^verbatim>\<open>'type'\<close> is one of the four strings of the column
  \<^verbatim>\<open>Recommendation.recommendation_type\<close>: \<^verbatim>\<open>'Use Soon'\<close> (\<open>UseSoon\<close>),
  \<^verbatim>\<open>'Preserve'\<close>, \<^verbatim>\<open>'Donate'\<close> and \<^verbatim>\<open>'Recipe Suggestion'\<close>
  (\<open>RecipeSuggestion\<close>).
\<close>

datatype recommendation_type = UseSoon | Preserve | Donate | RecipeSuggestion

record recommendation =
  rec_type :: recommendation_type
  rec_priority :: int
  rec_text :: string

text \<open>The two class-level dictionaries, in the order of the source.\<close>

definition PRESERVATION_METHODS :: "(string \<times> string list) list" where
  "PRESERVATION_METHODS =
    [(''Vegetables'',
       [''Store in crisper drawer with proper humidity'',
        ''Blanch and freeze for long-term storage'',
        ''Make vegetable soup or stir-fry'',
        ''Pickle or ferment for extended shelf life'']),
     (''Fruits'',
       [''Freeze for smoothies or baking'',
        ''Make fruit jam or compote'',
        ''Dehydrate for fruit chips'',
        ''Store separately from ethylene-sensitive items'']),
     (''Dairy'',
       [''Freeze milk, cheese, or butter'',
        ''Make yogurt or cheese'',
        ''Use in baking or cooking'',
        ''Store in coldest part of refrigerator'']),
     (''Meat'',
       [''Freeze immediately if not using soon'',
        ''Cook and refrigerate for meal prep'',
        ''Marinate for extended flavor and life'',
        ''Store in coldest part of refrigerator'']),
     (''Fish'',
       [''Freeze immediately if not using within 24 hours'',
        ''Cook and use in salads or pasta'',
        ''Smoke or cure for preservation'',
        ''Store on ice in refrigerator'']),
     (''Bread & Bakery'',
       [''Freeze sliced bread for freshness'',
        ''Make bread crumbs or croutons'',
        ''Toast or make French toast'',
        ''Store in paper bag at room temperature'']),
     (''Grains'',
       [''Store in airtight containers'',
        ''Keep in cool, dry place'',
        ''Cook in batches for meal prep'',
        ''Check for moisture or pests regularly''])]"

definition RECIPE_SUGGESTIONS :: "(string \<times> string list) list" where
  "RECIPE_SUGGESTIONS =
    [(''Vegetables'',
       [''Vegetable stir-fry with rice'',
        ''Mixed vegetable curry'',
        ''Vegetable soup'',
        ''Roasted vegetable medley'',
        ''Vegetable fried rice'']),
     (''Fruits'',
       [''Fruit smoothie'',
        ''Fruit salad'',
        ''Baked fruit dessert'',
        ''Fresh fruit juice'',
        ''Fruit yogurt parfait'']),
     (''Dairy'',
       [''Cheese omelette'',
        ''Creamy pasta sauce'',
        ''Homemade ice cream'',
        ''Yogurt-based smoothie'',
        ''Cheese-stuffed dishes'']),
     (''Meat'',
       [''Stir-fried meat with vegetables'',
        ''Meat curry'',
        ''Grilled meat skewers'',
        ''Meat fried rice'',
        ''Meat soup'']),
     (''Bread & Bakery'',
       [''French toast'',
        ''Bread pudding'',
        ''Garlic bread'',
        ''Sandwiches'',
        ''Bread pizza''])]"

text \<open>\<^verbatim>\<open>key in table\<close> and \<^verbatim>\<open>table[key]\<close>, which raises on a missing key.\<close>

definition contains_key :: "(string \<times> 'v) list \<Rightarrow> string \<Rightarrow> bool" where
  "contains_key table k = (map_of table k \<noteq> None)"

definition subscript :: "(string \<times> 'v) list \<Rightarrow> string \<Rightarrow> py_error + 'v" where
  "subscript table k = (case map_of table k of None \<Rightarrow> Inl KeyError | Some v \<Rightarrow> Inr v)"

definition get_urgent_recommendations :: "date \<Rightarrow> FoodItem \<Rightarrow> recommendation list" where
  "get_urgent_recommendations today food_item =
     (let days = days_until_expiry today food_item;
          recommendations =
            (case days of
               None \<Rightarrow>
                 [\<lparr>rec_type = UseSoon, rec_priority = 1,
                   rec_text = emoji_warning @ '' HIGH RISK: '' @ item_name food_item @
                     '' is at high risk of waste. Use soon or consider donating.''\<rparr>]
             | Some d \<Rightarrow>
                 if d < 0 then
                   [\<lparr>rec_type = UseSoon, rec_priority = 1,
                     rec_text = emoji_warning @ '' EXPIRED: Check if '' @ item_name food_item @
                       '' is still safe. If spoiled, dispose immediately.''\<rparr>]
                 else if d \<le> 1 then
                   [\<lparr>rec_type = UseSoon, rec_priority = 1,
                     rec_text = emoji_rotating_light @ '' USE TODAY: '' @ item_name food_item @
                       '' expires in '' @ str_int d @ '' day(s). Use immediately or freeze.''\<rparr>]
                 else if d \<le> 3 then
                   [\<lparr>rec_type = UseSoon, rec_priority = 1,
                     rec_text = emoji_high_voltage @ '' URGENT: Use '' @ item_name food_item @
                       '' within '' @ str_int d @ '' days or preserve it.''\<rparr>]
                 else
                   [\<lparr>rec_type = UseSoon, rec_priority = 1,
                     rec_text = emoji_warning @ '' HIGH RISK: '' @ item_name food_item @
                       '' is at high risk of waste. Use soon or consider donating.''\<rparr>])
      in
        if to_float (quantity food_item) >
             float_mul (to_float (initial_quantity food_item)) (to_float (5 / 10)) then
          recommendations @
            [\<lparr>rec_type = Donate, rec_priority = 1,
              rec_text = ''Consider donating excess '' @ item_name food_item @
                '' to reduce waste.''\<rparr>]
        else recommendations)"

text \<open>
  \<^verbatim>\<open>_get_medium_risk_recommendations\<close>. The source reads the property
  \<^verbatim>\<open>consumption_rate\<close> in the \<^verbatim>\<open>if\<close> and again in the \<^verbatim>\<open>elif\<close>; the
  property has no effect, so the model reads it once.
\<close>

definition get_medium_risk_recommendations ::
    "(rat list \<Rightarrow> rat) \<Rightarrow> date \<Rightarrow> FoodItem \<Rightarrow> py_error + recommendation list" where
  "get_medium_risk_recommendations fsum today food_item =
     (let recommendations =
            (case days_until_expiry today food_item of
               Some d \<Rightarrow>
                 [\<lparr>rec_type = UseSoon, rec_priority = 2,
                   rec_text = emoji_calendar @ '' Plan to use '' @ item_name food_item @
                     '' within '' @ str_int d @ '' days.''\<rparr>]
             | None \<Rightarrow> [])
      in
        and_then (consumption_rate fsum today food_item) (\<lambda>rate.
          if rate = 0 then
            Inr (recommendations @
              [\<lparr>rec_type = UseSoon, rec_priority = 2,
                rec_text = emoji_alarm_clock @ '' Start using '' @ item_name food_item @
                  '' - no consumption recorded yet.''\<rparr>])
          else if rate < to_float (1 / 10) then
            Inr (recommendations @
              [\<lparr>rec_type = UseSoon, rec_priority = 2,
                rec_text = emoji_snail @ '' Slow consumption rate for '' @ item_name food_item @
                  ''. Increase usage frequency.''\<rparr>])
          else Inr recommendations))"

definition get_low_risk_recommendations :: "FoodItem \<Rightarrow> recommendation list" where
  "get_low_risk_recommendations food_item =
     [\<lparr>rec_type = UseSoon, rec_priority = 3,
       rec_text = emoji_check_mark @ '' '' @ item_name food_item @
         '' is being consumed well. Continue current usage pattern.''\<rparr>]"

definition generate_recommendations ::
    "(rat list \<Rightarrow> rat) \<Rightarrow> date \<Rightarrow> FoodItem \<Rightarrow> py_error + recommendation list" where
  "generate_recommendations fsum today food_item =
     (let risk_score = waste_risk_score food_item;
          days = days_until_expiry today food_item;
          name = category_name (category food_item)
      in
        and_then
          (if risk_score \<ge> 70 \<or> (case days of Some d \<Rightarrow> d \<le> 3 | None \<Rightarrow> False) then
             Inr (get_urgent_recommendations today food_item)
           else if risk_score \<ge> 40 \<or> (case days of Some d \<Rightarrow> d \<le> 7 | None \<Rightarrow> False) then
             get_medium_risk_recommendations fsum today food_item
           else Inr (get_low_risk_recommendations food_item))
          (\<lambda>tier.
        and_then
          (if contains_key PRESERVATION_METHODS name then
             and_then (subscript PRESERVATION_METHODS name) (\<lambda>methods.
               Inr (tier @
                 [\<lparr>rec_type = Preserve, rec_priority = 2,
                   rec_text = ''Preservation options: '' @ join '', '' (take 2 methods)\<rparr>]))
           else Inr tier)
          (\<lambda>recommendations.
          if contains_key RECIPE_SUGGESTIONS name then
            and_then (subscript RECIPE_SUGGESTIONS name) (\<lambda>suggestions.
              let recipes = take 2 suggestions in
              Inr (recommendations @
                [\<lparr>rec_type = RecipeSuggestion, rec_priority = 3,
                  rec_text = ''Try making: '' @ join '' or '' recipes\<rparr>]))
          else Inr recommendations)))"

definition get_alert_message :: "date \<Rightarrow> FoodItem \<Rightarrow> string" where
  "get_alert_message today food_item =
     (let risk_score = waste_risk_score food_item;
          days = days_until_expiry today food_item
      in
        if (case days of Some d \<Rightarrow> d < 0 | None \<Rightarrow> False) then
          item_name food_item @ '' has expired! Please check and dispose if spoiled.''
        else if (case days of Some d \<Rightarrow> d \<le> 1 | None \<Rightarrow> False) then
          item_name food_item @ '' expires today! Use immediately.''
        else if (case days of Some d \<Rightarrow> d \<le> 3 | None \<Rightarrow> False) then
          item_name food_item @ '' expires in '' @
            (case days of Some d \<Rightarrow> str_int d | None \<Rightarrow> ''None'') @ '' days. Use soon!''
        else if risk_score \<ge> 70 then
          item_name food_item @ '' is at high risk of waste. Take action now.''
        else if risk_score \<ge> 40 then
          item_name food_item @ '' needs attention. Plan to use soon.''
        else item_name food_item @ '' status update.'')"

section \<open>The specification's tables, in its own words\<close>

text \<open>
  The quantity sub-risk as the specification words it: a step function of
  \<open>percentageRemaining\<close>, which is taken to be 0 when \<open>initialQuantity\<close> is 0.
\<close>

definition percentage_remaining_spec :: "rat \<Rightarrow> rat \<Rightarrow> rat" where
  "percentage_remaining_spec remaining initial =
     (if initial = 0 then 0 else remaining / initial * 100)"

text \<open>
  The percentage as the code computes it: both quantities converted to floats, the
  quotient rounded, and the product with 100 rounded.
\<close>

definition percentage_remaining_float :: "rat \<Rightarrow> rat \<Rightarrow> rat" where
  "percentage_remaining_float remaining initial =
     float_mul (to_float (to_float remaining / to_float initial)) (int_to_float 100)"

definition quantity_step :: "rat \<Rightarrow> int" where
  "quantity_step p =
     (if p > 80 then 70 else if p > 60 then 50 else if p > 40 then 30
      else if p > 20 then 15 else 5)"

text \<open>
  The consumption sub-risk as the specification words it, over \<open>daysUntilExpiry\<close>,
  \<open>dailyConsumptionRate\<close>, \<open>daysSincePurchase\<close> and \<open>quantityRemaining\<close>;
  \<open>pace_step\<close> compares \<open>daysToConsume\<close> with the days left.
\<close>

definition pace_step :: "rat \<Rightarrow> int \<Rightarrow> int" where
  "pace_step days_to_consume d =
     (if days_to_consume > of_int d * (15 / 10) then 90
      else if days_to_consume > of_int d then 70
      else if days_to_consume > of_int d * (8 / 10) then 50
      else 20)"

text \<open>
  The same rule with every operation in double precision: the quotient of the float of
  the remaining quantity by the rate is rounded, and so are the products of the days
  with \<^verbatim>\<open>1.5\<close> and \<^verbatim>\<open>0.8\<close>.
\<close>

definition pace_step_float :: "rat \<Rightarrow> int \<Rightarrow> int" where
  "pace_step_float days_to_consume d =
     (if days_to_consume > float_mul (int_to_float d) (to_float (15 / 10)) then 90
      else if days_to_consume > of_int d then 70
      else if days_to_consume > float_mul (int_to_float d) (to_float (8 / 10)) then 50
      else 20)"

definition consumption_risk_float :: "int option \<Rightarrow> rat \<Rightarrow> int \<Rightarrow> rat \<Rightarrow> int" where
  "consumption_risk_float days rate days_since_purchase remaining =
     (case days of
        None \<Rightarrow> 100
      | Some d \<Rightarrow>
          if d \<le> 0 then 100
          else if rate = 0 then (if days_since_purchase > 3 then 80 else 50)
          else pace_step_float (to_float (to_float remaining / rate)) d)"

definition consumption_risk_spec :: "int option \<Rightarrow> rat \<Rightarrow> int \<Rightarrow> rat \<Rightarrow> int" where
  "consumption_risk_spec days rate days_since_purchase remaining =
     (case days of
        None \<Rightarrow> 100
      | Some d \<Rightarrow>
          if d \<le> 0 then 100
          else if rate = 0 then (if days_since_purchase > 3 then 80 else 50)
          else pace_step (remaining / rate) d)"

text \<open>
  The alert message as the specification words it: a list of rules tried in order, the
  first that applies deciding the kind of message. The rules on the days until expiry
  exist only when the days are known.
\<close>

datatype alert_kind =
  Expired | ExpiresToday | ExpiresInDays int | HighRisk | NeedsAttention | StatusUpdate

fun first_match :: "(bool \<times> 'a) list \<Rightarrow> 'a \<Rightarrow> 'a" where
  "first_match [] fallback = fallback"
| "first_match ((applies, outcome) # rules) fallback =
     (if applies then outcome else first_match rules fallback)"

definition alert_kind_spec :: "int option \<Rightarrow> rat \<Rightarrow> alert_kind" where
  "alert_kind_spec days score =
     (case days of
        Some d \<Rightarrow>
          first_match
            [(d < 0, Expired), (d \<le> 1, ExpiresToday), (d \<le> 3, ExpiresInDays d),
             (score \<ge> 70, HighRisk), (score \<ge> 40, NeedsAttention)]
            StatusUpdate
      | None \<Rightarrow>
          first_match [(score \<ge> 70, HighRisk), (score \<ge> 40, NeedsAttention)] StatusUpdate)"

fun alert_text :: "string \<Rightarrow> alert_kind \<Rightarrow> string" where
  "alert_text name Expired = name @ '' has expired! Please check and dispose if spoiled.''"
| "alert_text name ExpiresToday = name @ '' expires today! Use immediately.''"
| "alert_text name (ExpiresInDays d) = name @ '' expires in '' @ str_int d @ '' days. Use soon!''"
| "alert_text name HighRisk = name @ '' is at high risk of waste. Take action now.''"
| "alert_text name NeedsAttention = name @ '' needs attention. Plan to use soon.''"
| "alert_text name StatusUpdate = name @ '' status update.''"

text \<open>
  The three entries of the medium tier: the one that names the days remaining, the
  start-using one and the slow-consumption one.
\<close>

definition plan_entry :: "string \<Rightarrow> int \<Rightarrow> recommendation" where
  "plan_entry name d =
     \<lparr>rec_type = UseSoon, rec_priority = 2,
      rec_text = emoji_calendar @ '' Plan to use '' @ name @ '' within '' @ str_int d @
        '' days.''\<rparr>"

definition start_using_entry :: "string \<Rightarrow> recommendation" where
  "start_using_entry name =
     \<lparr>rec_type = UseSoon, rec_priority = 2,
      rec_text = emoji_alarm_clock @ '' Start using '' @ name @
        '' - no consumption recorded yet.''\<rparr>"

definition slow_consumption_entry :: "string \<Rightarrow> recommendation" where
  "slow_consumption_entry name =
     \<lparr>rec_type = UseSoon, rec_priority = 2,
      rec_text = emoji_snail @ '' Slow consumption rate for '' @ name @
        ''. Increase usage frequency.''\<rparr>"

section \<open>Example items\<close>

definition dairy :: FoodCategory where
  "dairy = \<lparr>category_name = ''Dairy'', perishability_level = High\<rparr>"

definition grains :: FoodCategory where
  "grains = \<lparr>category_name = ''Grains'', perishability_level = Low\<rparr>"

text \<open>Half a bottle of milk on day 100: bought on day 98, expiring on day 104.\<close>

definition milk :: FoodItem where
  "milk = \<lparr>item_name = ''Milk'', quantity = 2, purchase_date = 98, expiry_date = Some 104,
     initial_quantity = 4, status = Active, waste_risk_score = 50,
     consumption_logs = [1, 1], category = dairy\<rparr>"

text \<open>
  A sack of rice whose initial quantity was recorded as 0, bought on day 90, expiring on
  day 125 and eaten at 5 a day.
\<close>

definition rice :: FoodItem where
  "rice = \<lparr>item_name = ''Rice'', quantity = 5, purchase_date = 90, expiry_date = Some 125,
     initial_quantity = 0, status = Active, waste_risk_score = 0,
     consumption_logs = [50], category = grains\<rparr>"

text \<open>An untouched yoghurt that expired yesterday (day 99), seen on day 100.\<close>

definition yoghurt :: FoodItem where
  "yoghurt = \<lparr>item_name = ''Yoghurt'', quantity = 1, purchase_date = 80,
     expiry_date = Some 99, initial_quantity = 1, status = Active, waste_risk_score = 0,
     consumption_logs = [], category = dairy\<rparr>"

text \<open>A loaf that has been eaten: its status is no longer \<open>Active\<close>.\<close>

definition eaten_bread :: FoodItem where
  "eaten_bread = \<lparr>item_name = ''Bread'', quantity = 0, purchase_date = 95,
     expiry_date = Some 101, initial_quantity = 1, status = Consumed, waste_risk_score = 0,
     consumption_logs = [1], category = grains\<rparr>"

text \<open>
  A tub of hummus of 0.70 with 0.56 left: exactly 80 percent as decimals.
\<close>

definition hummus :: FoodItem where
  "hummus = \<lparr>item_name = ''Hummus'', quantity = 56 / 100, purchase_date = 99,
     expiry_date = Some 106, initial_quantity = 70 / 100, status = Active,
     waste_risk_score = 0, consumption_logs = [14 / 100], category = dairy\<rparr>"

text \<open>
  Cheese bought on day 99 and expiring on day 101, with 2.1 left after one log of 1.4:
  on day 100 the decimals give a rate of 1.4 a day and exactly 1.5 days to consume.
\<close>

definition cheese :: FoodItem where
  "cheese = \<lparr>item_name = ''Cheese'', quantity = 21 / 10, purchase_date = 99,
     expiry_date = Some 101, initial_quantity = 35 / 10, status = Active,
     waste_risk_score = 0, consumption_logs = [14 / 10], category = dairy\<rparr>"

text \<open>
  Flour with no expiry date, a zero initial quantity, a negative quantity and no
  consumption: every edge of the scorer at once.
\<close>

definition undated_flour :: FoodItem where
  "undated_flour = \<lparr>item_name = ''Flour'', quantity = - 1, purchase_date = 100,
     expiry_date = None, initial_quantity = 0, status = Active, waste_risk_score = 0,
     consumption_logs = [], category = grains\<rparr>"

definition fish :: FoodCategory where
  "fish = \<lparr>category_name = ''Fish'', perishability_level = High\<rparr>"

text \<open>
  Tinned tuna with no expiry date, eaten at 1 a day, with a stored score of 50: a
  category that has preservation methods and no recipes.
\<close>

definition tuna :: FoodItem where
  "tuna = \<lparr>item_name = ''Tuna'', quantity = 3, purchase_date = 98, expiry_date = None,
     initial_quantity = 5, status = Active, waste_risk_score = 50,
     consumption_logs = [2], category = fish\<rparr>"

definition pantry :: FoodCategory where
  "pantry = \<lparr>category_name = ''Pantry'', perishability_level = Low\<rparr>"

text \<open>
  Olive oil with no expiry date and one log of 0.3 over three days: as decimals the rate
  is exactly 0.1 a day. Its category is in neither table.
\<close>

definition olive_oil :: FoodItem where
  "olive_oil = \<lparr>item_name = ''Olive oil'', quantity = 7 / 10, purchase_date = 97,
     expiry_date = None, initial_quantity = 1, status = Active, waste_risk_score = 50,
     consumption_logs = [3 / 10], category = pantry\<rparr>"

section \<open>Auxiliary facts\<close>

subsection \<open>Rounding\<close>

lemma bitlen_powi:
  assumes "0 < p"
  shows "(2::rat) powi (bitlen p - 1) \<le> of_int p" and "of_int p < (2::rat) powi bitlen p"
proof -
  have b: "2 ^ nat (bitlen p - 1) \<le> p" "p < 2 ^ nat (bitlen p)"
    using bitlen_bounds [OF assms] by auto
  have ge1: "1 \<le> bitlen p"
    using assms bitlen_eq_zero_iff [of p] bitlen_nonneg [of p] by linarith
  have "(2::rat) powi (bitlen p - 1) = 2 ^ nat (bitlen p - 1)"
    using ge1 by (simp add: power_int_def)
  also have "\<dots> = of_int (2 ^ nat (bitlen p - 1))" by simp
  also have "\<dots> \<le> of_int p" using b(1) by (simp only: of_int_le_iff)
  finally show "(2::rat) powi (bitlen p - 1) \<le> of_int p" .
  have "(of_int p :: rat) < of_int (2 ^ nat (bitlen p))"
    using b(2) by (simp only: of_int_less_iff)
  also have "\<dots> = 2 powi bitlen p"
    using ge1 by (simp add: power_int_def)
  finally show "of_int p < (2::rat) powi bitlen p" .
qed

lemma binade_bounds:
  assumes "0 < x"
  shows "2 powi binade x \<le> x \<and> x < 2 powi (binade x + 1)"
proof -
  obtain p q where pq: "quotient_of x = (p, q)" by (cases "quotient_of x")
  have q: "0 < q" using quotient_of_denom_pos [OF pq] .
  have x: "x = of_int p / of_int q" using quotient_of_div [OF pq] .
  have p: "0 < p" using assms q x by (simp add: zero_less_divide_iff)
  define k where "k = bitlen p - bitlen q"
  have lo: "2 powi (k - 1) < x"
  proof -
    have "(2::rat) powi (k - 1) = 2 powi (bitlen p - 1) / 2 powi bitlen q"
      by (simp add: k_def power_int_diff)
    also have "\<dots> \<le> of_int p / 2 powi bitlen q"
      using bitlen_powi(1) [OF p] by (simp add: divide_right_mono)
    also have "\<dots> < of_int p / of_int q"
      using bitlen_powi(2) [OF q] p q by (simp add: divide_strict_left_mono)
    finally show ?thesis by (simp add: x)
  qed
  have hi: "x < 2 powi (k + 1)"
  proof -
    have "x < 2 powi bitlen p / of_int q"
      using bitlen_powi(2) [OF p] q by (simp add: x divide_strict_right_mono)
    also have "\<dots> \<le> 2 powi bitlen p / 2 powi (bitlen q - 1)"
      using bitlen_powi(1) [OF q] q by (simp add: divide_left_mono)
    also have "\<dots> = 2 powi (k + 1)"
      by (simp add: k_def power_int_diff power_int_add)
    finally show ?thesis .
  qed
  show ?thesis
  proof (cases "2 powi k \<le> x")
    case True
    then have "binade x = k" by (simp add: binade_def pq k_def)
    with True hi show ?thesis by simp
  next
    case False
    then have "binade x = k - 1" by (simp add: binade_def pq k_def)
    with False lo show ?thesis by simp
  qed
qed


lemma round_half_even_of_int: "round_half_even (of_int j) = j"
  by (simp add: round_half_even_def)

lemma round_half_even_ge_floor: "\<lfloor>y\<rfloor> \<le> round_half_even y"
  by (simp add: round_half_even_def Let_def)

lemma to_float_eq_0_iff: "to_float x = 0 \<longleftrightarrow> x = 0"
proof (cases "x = 0")
  case True
  then show ?thesis by (simp add: to_float_def)
next
  case False
  define e where "e = binade \<bar>x\<bar> - 52"
  have pos: "0 < \<bar>x\<bar>" using False by simp
  have "(2::rat) powi 52 = 2 powi binade \<bar>x\<bar> / 2 powi e"
    by (simp add: e_def power_int_diff)
  also have "\<dots> \<le> \<bar>x\<bar> / 2 powi e"
    using binade_bounds [OF pos] by (simp add: divide_right_mono)
  finally have "(2::rat) powi 52 \<le> \<bar>x\<bar> / 2 powi e" .
  moreover have "(1::rat) \<le> 2 powi 52" by simp
  ultimately have "(1::rat) \<le> \<bar>x\<bar> / 2 powi e"
    by (rule order_trans [rotated])
  then have "1 \<le> \<lfloor>\<bar>x\<bar> / 2 powi e\<rfloor>"
    by (simp only: le_floor_iff of_int_1)
  then have "0 < round_half_even (\<bar>x\<bar> / 2 powi e)"
    using round_half_even_ge_floor [of "\<bar>x\<bar> / 2 powi e"] by linarith
  then show ?thesis
    using False by (simp add: to_float_def e_def [symmetric] Let_def sgn_0_0)
qed

lemma to_float_of_int:
  assumes "\<bar>n\<bar> < 2 ^ 53"
  shows "to_float (of_int n) = of_int n"
proof (cases "n = 0")
  case True
  then show ?thesis by (simp add: to_float_def)
next
  case False
  define m where "m = \<bar>n\<bar>"
  define e where "e = binade (of_int m) - 52"
  have m: "0 < m" "m < 2 ^ 53" using False assms by (simp_all add: m_def)
  have pos: "(0::rat) < of_int m" using m by simp
  have "(2::rat) powi binade (of_int m) \<le> of_int m"
    using binade_bounds [OF pos] by simp
  also have "(of_int m :: rat) < 2 powi 53"
    using m(2) by simp
  finally have "binade (of_int m) < 53"
    by (rule power_int_le_imp_less_exp [rotated]) simp_all
  then have e: "e \<le> 0" by (simp add: e_def)
  have p: "(2::rat) powi e = 1 / 2 ^ nat (- e)"
    using e by (simp add: power_int_def field_simps)
  have "(of_int m :: rat) / 2 powi e = of_int (m * 2 ^ nat (- e))"
    by (simp add: p)
  then have r: "round_half_even (of_int m / 2 powi e) = m * 2 ^ nat (- e)"
    by (simp only: round_half_even_of_int)
  have undo: "(of_int (m * 2 ^ nat (- e)) :: rat) * 2 powi e = of_int m"
    by (simp add: p)
  have ab: "\<bar>of_int n :: rat\<bar> = of_int m" by (simp add: m_def)
  have "to_float (of_int n) = sgn (of_int n) * (of_int (m * 2 ^ nat (- e)) * 2 powi e)"
    using False by (simp add: to_float_def ab e_def [symmetric] Let_def r)
  also have "\<dots> = sgn (of_int n) * of_int m" by (simp only: undo)
  also have "\<dots> = of_int n"
    unfolding ab [symmetric] by (rule sgn_mult_abs)
  finally show ?thesis .
qed

lemma int_to_float_exact: "\<bar>n\<bar> < 2 ^ 53 \<Longrightarrow> int_to_float n = of_int n"
  by (simp add: int_to_float_def to_float_of_int)

lemma int_to_float_eq_0_iff: "int_to_float n = 0 \<longleftrightarrow> n = 0"
  by (simp add: int_to_float_def to_float_eq_0_iff)

lemma float_add_ints:
  "\<bar>a + b\<bar> < 2 ^ 53 \<Longrightarrow> float_add (of_int a) (of_int b) = of_int (a + b)"
  using to_float_of_int [of "a + b"] by (simp add: float_add_def)

subsection \<open>The scorer\<close>

lemma and_then_Inr: "and_then (Inr v) f = f v"
  by (simp add: and_then_def)

lemma Inr_if: "(if c then Inr a else Inr b) = Inr (if c then a else b)"
  by simp

text \<open>The division of \<open>consumption_rate\<close> is guarded: the property never raises.\<close>

lemma consumption_rate_total:
  "consumption_rate fsum today food_item =
     Inr (if consumption_logs food_item = [] \<or> today - purchase_date food_item \<le> 0 then 0
          else to_float (fsum (map to_float (consumption_logs food_item)) /
                 int_to_float (today - purchase_date food_item)))"
  by (simp add: consumption_rate_def py_truediv_def Let_def int_to_float_eq_0_iff)

lemma shelf_life_risk_range:
  "calculate_shelf_life_risk today food_item \<in> {10, 30, 50, 70, 90, 100}"
  by (simp add: calculate_shelf_life_risk_def split: option.split)

lemma consumption_risk_range:
  "\<exists>r. calculate_consumption_risk fsum today food_item = Inr r \<and>
     r \<in> {20, 50, 70, 80, 90, 100}"
  by (simp add: calculate_consumption_risk_def consumption_rate_total and_then_Inr
      py_truediv_def Let_def split: option.split)

lemma quantity_risk_range:
  "\<exists>r. calculate_quantity_risk food_item = Inr r \<and> r \<in> {0, 5, 15, 30, 50, 70}"
  by (simp add: calculate_quantity_risk_def and_then_Inr py_truediv_def Let_def)

lemma perishability_risk_range:
  "calculate_perishability_risk food_item \<in> {20, 50, 80}"
  by (simp add: calculate_perishability_risk_def Let_def)

text \<open>Closed forms of the two sub-risks that divide.\<close>

lemma quantity_risk_closed:
  "calculate_quantity_risk food_item =
     Inr (if to_float (initial_quantity food_item) = 0 then 0
          else quantity_step
            (percentage_remaining_float (quantity food_item) (initial_quantity food_item)))"
proof (cases "to_float (initial_quantity food_item) = 0")
  case True
  then show ?thesis by (simp add: calculate_quantity_risk_def)
next
  case False
  then have "py_truediv (to_float (quantity food_item)) (to_float (initial_quantity food_item)) =
      Inr (to_float (to_float (quantity food_item) / to_float (initial_quantity food_item)))"
    by (simp add: py_truediv_def)
  then show ?thesis
    using False
    by (simp only: calculate_quantity_risk_def Let_def and_then_Inr quantity_step_def
        percentage_remaining_float_def if_False Inr_if)
qed

lemma consumption_risk_closed:
  assumes "consumption_rate fsum today food_item = Inr rate"
  shows "calculate_consumption_risk fsum today food_item =
     Inr (case days_until_expiry today food_item of
            None \<Rightarrow> 100
          | Some d \<Rightarrow>
              if d \<le> 0 then 100
              else if rate = 0 then (if today - purchase_date food_item > 3 then 80 else 50)
              else pace_step_float
                (if rate > 0 then to_float (to_float (quantity food_item) / rate) else 999)
                d)"
  using assms
  by (auto simp add: calculate_consumption_risk_def and_then_Inr py_truediv_def Let_def
      pace_step_float_def split: option.split)

text \<open>
  The four weighted terms are whole numbers: the product of each possible sub-risk with
  the double of its weight rounds to the decimal product.
\<close>

lemma shelf_life_products:
  "float_mul (int_to_float 10) SHELF_LIFE_WEIGHT = of_int 4"
    "float_mul (int_to_float 30) SHELF_LIFE_WEIGHT = of_int 12"
    "float_mul (int_to_float 50) SHELF_LIFE_WEIGHT = of_int 20"
    "float_mul (int_to_float 70) SHELF_LIFE_WEIGHT = of_int 28"
    "float_mul (int_to_float 90) SHELF_LIFE_WEIGHT = of_int 36"
    "float_mul (int_to_float 100) SHELF_LIFE_WEIGHT = of_int 40"
  by code_simp+

lemma shelf_life_term:
  "s \<in> {10, 30, 50, 70, 90, 100} \<Longrightarrow>
   \<exists>a. float_mul (int_to_float s) SHELF_LIFE_WEIGHT = of_int a \<and> 4 \<le> a \<and> a \<le> 40"
  using shelf_life_products
  by (elim insertE emptyE) (simp_all only:, (rule exI, rule conjI, rule refl, simp)+)

lemma consumption_products:
  "float_mul (int_to_float 20) CONSUMPTION_WEIGHT = of_int 6"
    "float_mul (int_to_float 50) CONSUMPTION_WEIGHT = of_int 15"
    "float_mul (int_to_float 70) CONSUMPTION_WEIGHT = of_int 21"
    "float_mul (int_to_float 80) CONSUMPTION_WEIGHT = of_int 24"
    "float_mul (int_to_float 90) CONSUMPTION_WEIGHT = of_int 27"
    "float_mul (int_to_float 100) CONSUMPTION_WEIGHT = of_int 30"
  by code_simp+

lemma consumption_term:
  "c \<in> {20, 50, 70, 80, 90, 100} \<Longrightarrow>
   \<exists>a. float_mul (int_to_float c) CONSUMPTION_WEIGHT = of_int a \<and> 6 \<le> a \<and> a \<le> 30"
  using consumption_products
  by (elim insertE emptyE) (simp_all only:, (rule exI, rule conjI, rule refl, simp)+)

lemma quantity_products:
  "float_mul (int_to_float 0) QUANTITY_WEIGHT = of_int 0"
    "float_mul (int_to_float 5) QUANTITY_WEIGHT = of_int 1"
    "float_mul (int_to_float 15) QUANTITY_WEIGHT = of_int 3"
    "float_mul (int_to_float 30) QUANTITY_WEIGHT = of_int 6"
    "float_mul (int_to_float 50) QUANTITY_WEIGHT = of_int 10"
    "float_mul (int_to_float 70) QUANTITY_WEIGHT = of_int 14"
  by code_simp+

lemma quantity_term:
  "q \<in> {0, 5, 15, 30, 50, 70} \<Longrightarrow>
   \<exists>a. float_mul (int_to_float q) QUANTITY_WEIGHT = of_int a \<and> 0 \<le> a \<and> a \<le> 14"
  using quantity_products
  by (elim insertE emptyE) (simp_all only:, (rule exI, rule conjI, rule refl, simp)+)

lemma perishability_products:
  "float_mul (int_to_float 20) PERISHABILITY_WEIGHT = of_int 2"
    "float_mul (int_to_float 50) PERISHABILITY_WEIGHT = of_int 5"
    "float_mul (int_to_float 80) PERISHABILITY_WEIGHT = of_int 8"
  by code_simp+

lemma perishability_term:
  "p \<in> {20, 50, 80} \<Longrightarrow>
   \<exists>a. float_mul (int_to_float p) PERISHABILITY_WEIGHT = of_int a \<and> 2 \<le> a \<and> a \<le> 8"
  using perishability_products
  by (elim insertE emptyE) (simp_all only:, (rule exI, rule conjI, rule refl, simp)+)

text \<open>
  When the four weighted terms are whole numbers with a sum between 0 and 100, no
  addition rounds and the clamp changes nothing.
\<close>

lemma weighted_sum_value:
  assumes "status food_item = Active"
    and c: "calculate_consumption_risk fsum today food_item = Inr c"
    and q: "calculate_quantity_risk food_item = Inr q"
    and a1: "float_mul (int_to_float (calculate_shelf_life_risk today food_item))
      SHELF_LIFE_WEIGHT = of_int a1"
    and a2: "float_mul (int_to_float c) CONSUMPTION_WEIGHT = of_int a2"
    and a3: "float_mul (int_to_float q) QUANTITY_WEIGHT = of_int a3"
    and a4: "float_mul (int_to_float (calculate_perishability_risk food_item))
      PERISHABILITY_WEIGHT = of_int a4"
    and nonneg: "0 \<le> a1" "0 \<le> a2" "0 \<le> a3" "0 \<le> a4"
    and le: "a1 + a2 + a3 + a4 \<le> 100"
  shows "calculate_waste_risk fsum today food_item = Inr (of_int (a1 + a2 + a3 + a4))"
proof -
  have s1: "float_add (of_int a1) (of_int a2) = of_int (a1 + a2)"
    using nonneg le by (intro float_add_ints) simp
  have s2: "float_add (of_int (a1 + a2)) (of_int a3) = of_int (a1 + a2 + a3)"
    using nonneg le by (intro float_add_ints) simp
  have s3: "float_add (of_int (a1 + a2 + a3)) (of_int a4) = of_int (a1 + a2 + a3 + a4)"
    using nonneg le by (intro float_add_ints) simp
  have "calculate_waste_risk fsum today food_item =
      Inr (min 100 (max 0 (of_int (a1 + a2 + a3 + a4))))"
    using assms(1)
    by (simp only: calculate_waste_risk_def c q and_then_Inr Let_def a1 a2 a3 a4 s1 s2 s3)
      simp
  moreover have "min 100 (max 0 (of_int (a1 + a2 + a3 + a4) :: rat)) = of_int (a1 + a2 + a3 + a4)"
    using nonneg le by (simp add: min_def max_def)
  ultimately show ?thesis
    by simp
qed

text \<open>So the score of an \<open>Active\<close> item is a whole number between 12 and 92.\<close>

lemma weighted_sum:
  assumes "status food_item = Active"
  shows "\<exists>n. calculate_waste_risk fsum today food_item = Inr (of_int n) \<and> 12 \<le> n \<and> n \<le> 92"
proof -
  obtain c where c: "calculate_consumption_risk fsum today food_item = Inr c"
    and cr: "c \<in> {20, 50, 70, 80, 90, 100}"
    using consumption_risk_range by blast
  obtain q where q: "calculate_quantity_risk food_item = Inr q"
    and qr: "q \<in> {0, 5, 15, 30, 50, 70}"
    using quantity_risk_range by blast
  obtain a1 where a1: "float_mul (int_to_float (calculate_shelf_life_risk today food_item))
      SHELF_LIFE_WEIGHT = of_int a1" "4 \<le> a1" "a1 \<le> 40"
    using shelf_life_term [OF shelf_life_risk_range] by blast
  obtain a2 where a2: "float_mul (int_to_float c) CONSUMPTION_WEIGHT = of_int a2"
      "6 \<le> a2" "a2 \<le> 30"
    using consumption_term [OF cr] by blast
  obtain a3 where a3: "float_mul (int_to_float q) QUANTITY_WEIGHT = of_int a3"
      "0 \<le> a3" "a3 \<le> 14"
    using quantity_term [OF qr] by blast
  obtain a4 where a4: "float_mul (int_to_float (calculate_perishability_risk food_item))
      PERISHABILITY_WEIGHT = of_int a4" "2 \<le> a4" "a4 \<le> 8"
    using perishability_term [OF perishability_risk_range] by blast
  have "calculate_waste_risk fsum today food_item = Inr (of_int (a1 + a2 + a3 + a4))"
    using a1 a2 a3 a4
    by (intro weighted_sum_value [OF assms c q]) simp_all
  then show ?thesis
    using a1 a2 a3 a4 by (intro exI [of _ "a1 + a2 + a3 + a4"]) simp
qed

subsection \<open>The recommender\<close>

text \<open>The entries of the three tiers are \<open>UseSoon\<close> or \<open>Donate\<close> entries.\<close>

lemma urgent_types:
  "r \<in> set (get_urgent_recommendations today food_item) \<Longrightarrow>
   rec_type r = UseSoon \<or> rec_type r = Donate"
  by (auto simp add: get_urgent_recommendations_def Let_def split: option.splits if_splits)

lemma medium_total:
  "get_medium_risk_recommendations fsum today food_item =
     Inr ((case days_until_expiry today food_item of
             Some d \<Rightarrow> [plan_entry (item_name food_item) d]
           | None \<Rightarrow> []) @
          (if consumption_rate fsum today food_item = Inr 0
           then [start_using_entry (item_name food_item)]
           else if (\<exists>rate. consumption_rate fsum today food_item = Inr rate \<and>
                      rate < to_float (1 / 10))
           then [slow_consumption_entry (item_name food_item)]
           else []))"
  unfolding get_medium_risk_recommendations_def Let_def consumption_rate_total and_then_Inr
    plan_entry_def start_using_entry_def slow_consumption_entry_def
  by simp

lemma medium_types:
  "get_medium_risk_recommendations fsum today food_item = Inr recs \<Longrightarrow> r \<in> set recs \<Longrightarrow>
   rec_type r = UseSoon"
  unfolding medium_total
  by (auto simp add: plan_entry_def start_using_entry_def slow_consumption_entry_def
      split: option.splits if_splits)

lemma low_types:
  "r \<in> set (get_low_risk_recommendations food_item) \<Longrightarrow> rec_type r = UseSoon"
  by (auto simp add: get_low_risk_recommendations_def)

text \<open>The entry that names the days is neither of the other two.\<close>

lemma plan_entry_distinct:
  "plan_entry name d \<noteq> start_using_entry name'"
  "plan_entry name d \<noteq> slow_consumption_entry name'"
  by (simp_all add: plan_entry_def start_using_entry_def slow_consumption_entry_def
      emoji_calendar_def emoji_alarm_clock_def emoji_snail_def)

text \<open>
  The recommendation list is the tier's entries, then the preservation entry, then the
  recipe entry; neither table lookup raises.
\<close>

lemma generate_recommendations_append:
  assumes "(if waste_risk_score food_item \<ge> 70 \<or>
               (case days_until_expiry today food_item of Some d \<Rightarrow> d \<le> 3 | None \<Rightarrow> False)
            then Inr (get_urgent_recommendations today food_item)
            else if waste_risk_score food_item \<ge> 40 \<or>
               (case days_until_expiry today food_item of Some d \<Rightarrow> d \<le> 7 | None \<Rightarrow> False)
            then get_medium_risk_recommendations fsum today food_item
            else Inr (get_low_risk_recommendations food_item)) = Inr tier"
  shows "generate_recommendations fsum today food_item =
     Inr (tier @
       (case map_of PRESERVATION_METHODS (category_name (category food_item)) of
          None \<Rightarrow> []
        | Some methods \<Rightarrow>
            [\<lparr>rec_type = Preserve, rec_priority = 2,
              rec_text = ''Preservation options: '' @ join '', '' (take 2 methods)\<rparr>]) @
       (case map_of RECIPE_SUGGESTIONS (category_name (category food_item)) of
          None \<Rightarrow> []
        | Some suggestions \<Rightarrow>
            [\<lparr>rec_type = RecipeSuggestion, rec_priority = 3,
              rec_text = ''Try making: '' @ join '' or '' (take 2 suggestions)\<rparr>]))"
proof -
  have g: "generate_recommendations fsum today food_item =
      and_then (Inr tier) (\<lambda>tier.
        and_then
          (if contains_key PRESERVATION_METHODS (category_name (category food_item)) then
             and_then (subscript PRESERVATION_METHODS (category_name (category food_item)))
               (\<lambda>methods.
                 Inr (tier @
                   [\<lparr>rec_type = Preserve, rec_priority = 2,
                     rec_text = ''Preservation options: '' @ join '', '' (take 2 methods)\<rparr>]))
           else Inr tier)
          (\<lambda>recommendations.
          if contains_key RECIPE_SUGGESTIONS (category_name (category food_item)) then
            and_then (subscript RECIPE_SUGGESTIONS (category_name (category food_item)))
              (\<lambda>suggestions.
                let recipes = take 2 suggestions in
                Inr (recommendations @
                  [\<lparr>rec_type = RecipeSuggestion, rec_priority = 3,
                    rec_text = ''Try making: '' @ join '' or '' recipes\<rparr>]))
          else Inr recommendations))"
    unfolding generate_recommendations_def Let_def
    by (simp only: assms)
  show ?thesis
    unfolding g and_then_Inr
    by (cases "map_of PRESERVATION_METHODS (category_name (category food_item))";
        cases "map_of RECIPE_SUGGESTIONS (category_name (category food_item))")
       (simp_all add: contains_key_def subscript_def and_then_def)
qed

lemma tier_total:
  "\<exists>tier. (if waste_risk_score food_item \<ge> 70 \<or>
               (case days_until_expiry today food_item of Some d \<Rightarrow> d \<le> 3 | None \<Rightarrow> False)
            then Inr (get_urgent_recommendations today food_item)
            else if waste_risk_score food_item \<ge> 40 \<or>
               (case days_until_expiry today food_item of Some d \<Rightarrow> d \<le> 7 | None \<Rightarrow> False)
            then get_medium_risk_recommendations fsum today food_item
            else Inr (get_low_risk_recommendations food_item)) = Inr tier \<and>
          (\<forall>r \<in> set tier. rec_type r = UseSoon \<or> rec_type r = Donate)"
proof -
  obtain m where m: "get_medium_risk_recommendations fsum today food_item = Inr m"
    using medium_total by blast
  have mt: "\<forall>r \<in> set m. rec_type r = UseSoon \<or> rec_type r = Donate"
    using medium_types [OF m] by blast
  have ut: "\<forall>r \<in> set (get_urgent_recommendations today food_item).
      rec_type r = UseSoon \<or> rec_type r = Donate"
    using urgent_types by blast
  have lt: "\<forall>r \<in> set (get_low_risk_recommendations food_item).
      rec_type r = UseSoon \<or> rec_type r = Donate"
    using low_types by blast
  show ?thesis
    unfolding m Inr_if using mt ut lt by simp
qed

subsection \<open>The example items\<close>

lemma hummus_quantity_risk: "calculate_quantity_risk hummus = Inr 70"
proof -
  have "to_float (initial_quantity hummus) \<noteq> 0"
    "quantity_step
       (percentage_remaining_float (quantity hummus) (initial_quantity hummus)) = 70"
    by code_simp+
  then show ?thesis
    by (simp add: quantity_risk_closed)
qed

lemma cheese_rate:
  "consumption_rate sum_left_to_right 100 cheese = Inr (to_float (14 / 10))"
  "consumption_rate sum_compensated 100 cheese = Inr (to_float (14 / 10))"
proof -
  have "(if consumption_logs cheese = [] \<or> 100 - purchase_date cheese \<le> 0 then 0
         else to_float (sum_left_to_right (map to_float (consumption_logs cheese)) /
                int_to_float (100 - purchase_date cheese))) = to_float (14 / 10)"
    "(if consumption_logs cheese = [] \<or> 100 - purchase_date cheese \<le> 0 then 0
         else to_float (sum_compensated (map to_float (consumption_logs cheese)) /
                int_to_float (100 - purchase_date cheese))) = to_float (14 / 10)"
    by code_simp+
  then show "consumption_rate sum_left_to_right 100 cheese = Inr (to_float (14 / 10))"
    "consumption_rate sum_compensated 100 cheese = Inr (to_float (14 / 10))"
    by (simp_all only: consumption_rate_total)
qed

lemma cheese_consumption_risk:
  "calculate_consumption_risk sum_left_to_right 100 cheese = Inr 90"
  "calculate_consumption_risk sum_compensated 100 cheese = Inr 90"
proof -
  have v: "(case days_until_expiry 100 cheese of
            None \<Rightarrow> 100
          | Some d \<Rightarrow>
              if d \<le> 0 then 100
              else if to_float (14 / 10) = 0
                then (if 100 - purchase_date cheese > 3 then 80 else 50)
              else pace_step_float
                (if to_float (14 / 10) > 0
                 then to_float (to_float (quantity cheese) / to_float (14 / 10)) else 999)
                d) = (90::int)"
    by code_simp
  show "calculate_consumption_risk sum_left_to_right 100 cheese = Inr 90"
    by (simp only: consumption_risk_closed [OF cheese_rate(1)] v)
  show "calculate_consumption_risk sum_compensated 100 cheese = Inr 90"
    by (simp only: consumption_risk_closed [OF cheese_rate(2)] v)
qed

lemma milk_rate: "consumption_rate sum_left_to_right 100 milk = Inr 1"
proof -
  have "(if consumption_logs milk = [] \<or> 100 - purchase_date milk \<le> 0 then 0
         else to_float (sum_left_to_right (map to_float (consumption_logs milk)) /
                int_to_float (100 - purchase_date milk))) = 1"
    by code_simp
  then show ?thesis
    by (simp only: consumption_rate_total)
qed

lemma rice_score: "calculate_waste_risk sum_left_to_right 100 rice = Inr 12"
proof -
  have r: "consumption_rate sum_left_to_right 100 rice = Inr 5"
  proof -
    have "(if consumption_logs rice = [] \<or> 100 - purchase_date rice \<le> 0 then 0
           else to_float (sum_left_to_right (map to_float (consumption_logs rice)) /
                  int_to_float (100 - purchase_date rice))) = 5"
      by code_simp
    then show ?thesis
      by (simp only: consumption_rate_total)
  qed
  have v: "(case days_until_expiry 100 rice of
            None \<Rightarrow> 100
          | Some d \<Rightarrow>
              if d \<le> 0 then 100
              else if (5::rat) = 0 then (if 100 - purchase_date rice > 3 then 80 else 50)
              else pace_step_float
                (if (5::rat) > 0 then to_float (to_float (quantity rice) / 5) else 999)
                d) = (20::int)"
    by code_simp
  have c: "calculate_consumption_risk sum_left_to_right 100 rice = Inr 20"
    by (simp only: consumption_risk_closed [OF r] v)
  have q: "calculate_quantity_risk rice = Inr 0"
    by (simp add: calculate_quantity_risk_def rice_def to_float_def)
  have s: "calculate_shelf_life_risk 100 rice = 10"
    by (simp add: calculate_shelf_life_risk_def days_until_expiry_def rice_def)
  have p: "calculate_perishability_risk rice = 20"
    by (simp add: calculate_perishability_risk_def rice_def grains_def)
  have a: "status rice = Active"
    by (simp add: rice_def)
  have a1: "float_mul (int_to_float (calculate_shelf_life_risk 100 rice)) SHELF_LIFE_WEIGHT =
      of_int 4"
    unfolding s by (rule shelf_life_products(1))
  have a2: "float_mul (int_to_float 20) CONSUMPTION_WEIGHT = of_int 6"
    by (rule consumption_products(1))
  have a3: "float_mul (int_to_float 0) QUANTITY_WEIGHT = of_int 0"
    by (rule quantity_products(1))
  have a4: "float_mul (int_to_float (calculate_perishability_risk rice)) PERISHABILITY_WEIGHT =
      of_int 2"
    unfolding p by (rule perishability_products(1))
  have "calculate_waste_risk sum_left_to_right 100 rice = Inr (of_int (4 + 6 + 0 + 2))"
    by (rule weighted_sum_value [OF a c q a1 a2 a3 a4]) simp_all
  then show ?thesis
    by simp
qed


lemma tuna_rate: "consumption_rate sum_left_to_right 100 tuna = Inr 1"
proof -
  have "(if consumption_logs tuna = [] \<or> 100 - purchase_date tuna \<le> 0 then 0
         else to_float (sum_left_to_right (map to_float (consumption_logs tuna)) /
                int_to_float (100 - purchase_date tuna))) = 1"
    by code_simp
  then show ?thesis
    by (simp only: consumption_rate_total)
qed

lemma tenth_below_one: "\<not> 1 < to_float (1 / 10)"
  by code_simp

lemma olive_oil_rate:
  "consumption_rate sum_left_to_right 100 olive_oil = Inr (to_float (to_float (3 / 10) / 3))"
  "to_float (to_float (3 / 10) / 3) \<noteq> 0"
  "to_float (to_float (3 / 10) / 3) < to_float (1 / 10)"
  "sum_list (consumption_logs olive_oil) / of_int (100 - purchase_date olive_oil) = 1 / 10"
proof -
  have "(if consumption_logs olive_oil = [] \<or> 100 - purchase_date olive_oil \<le> 0 then 0
         else to_float (sum_left_to_right (map to_float (consumption_logs olive_oil)) /
                int_to_float (100 - purchase_date olive_oil))) =
        to_float (to_float (3 / 10) / 3)"
    by code_simp
  then show "consumption_rate sum_left_to_right 100 olive_oil =
      Inr (to_float (to_float (3 / 10) / 3))"
    by (simp only: consumption_rate_total)
  show "to_float (to_float (3 / 10) / 3) \<noteq> 0"
    "to_float (to_float (3 / 10) / 3) < to_float (1 / 10)"
    by code_simp+
  show "sum_list (consumption_logs olive_oil) / of_int (100 - purchase_date olive_oil) = 1 / 10"
    by (simp add: olive_oil_def)
qed

lemma tuna_recommendations:
  "generate_recommendations sum_left_to_right 100 tuna =
     Inr [\<lparr>rec_type = Preserve, rec_priority = 2,
           rec_text = ''Preservation options: Freeze immediately if not using within 24 hours, Cook and use in salads or pasta''\<rparr>]"
proof -
  have d: "days_until_expiry 100 tuna = None"
    by (simp add: days_until_expiry_def tuna_def)
  have m: "get_medium_risk_recommendations sum_left_to_right 100 tuna = Inr []"
    unfolding medium_total tuna_rate d using tenth_below_one by simp
  have t: "(if waste_risk_score tuna \<ge> 70 \<or>
               (case days_until_expiry 100 tuna of Some d \<Rightarrow> d \<le> 3 | None \<Rightarrow> False)
            then Inr (get_urgent_recommendations 100 tuna)
            else if waste_risk_score tuna \<ge> 40 \<or>
               (case days_until_expiry 100 tuna of Some d \<Rightarrow> d \<le> 7 | None \<Rightarrow> False)
            then get_medium_risk_recommendations sum_left_to_right 100 tuna
            else Inr (get_low_risk_recommendations tuna)) = Inr []"
    unfolding m d by (simp add: tuna_def)
  show ?thesis
    unfolding generate_recommendations_append [OF t]
    by (simp add: PRESERVATION_METHODS_def RECIPE_SUGGESTIONS_def tuna_def fish_def)
qed

lemma olive_oil_recommendations:
  "generate_recommendations sum_left_to_right 100 olive_oil =
     Inr [slow_consumption_entry ''Olive oil'']"
proof -
  have d: "days_until_expiry 100 olive_oil = None"
    by (simp add: days_until_expiry_def olive_oil_def)
  have m: "get_medium_risk_recommendations sum_left_to_right 100 olive_oil =
      Inr [slow_consumption_entry ''Olive oil'']"
    unfolding medium_total olive_oil_rate(1) d using olive_oil_rate(2,3)
    by (simp add: olive_oil_def)
  have t: "(if waste_risk_score olive_oil \<ge> 70 \<or>
               (case days_until_expiry 100 olive_oil of Some d \<Rightarrow> d \<le> 3 | None \<Rightarrow> False)
            then Inr (get_urgent_recommendations 100 olive_oil)
            else if waste_risk_score olive_oil \<ge> 40 \<or>
               (case days_until_expiry 100 olive_oil of Some d \<Rightarrow> d \<le> 7 | None \<Rightarrow> False)
            then get_medium_risk_recommendations sum_left_to_right 100 olive_oil
            else Inr (get_low_risk_recommendations olive_oil)) =
          Inr [slow_consumption_entry ''Olive oil'']"
    unfolding m d by (simp add: olive_oil_def)
  show ?thesis
    unfolding generate_recommendations_append [OF t]
    by (simp add: PRESERVATION_METHODS_def RECIPE_SUGGESTIONS_def olive_oil_def pantry_def)
qed

section \<open>The claims\<close>

subsection \<open>C1: the quantity sub-risk\<close>

text \<open>
  C1, as stated, lets an item with \<open>initialQuantity = 0\<close> fall through the step function
  to 5, and applies the step function to the percentage of the two decimals. The code
  returns 0 for a zero initial quantity, before any percentage is computed (\<open>rice\<close>: 0
  where the stated table gives 5); and it computes the percentage in floats: for \<open>hummus\<close>,
  0.56 of 0.70, the double of the quotient times 100 lies above 80 and the code gives 70,
  where the decimals give exactly 80 and the stated table 50.
\<close>

theorem quantity_risk_zero_initial_counterexample:
  "calculate_quantity_risk rice = Inr 0 \<and>
   quantity_step (percentage_remaining_spec (quantity rice) (initial_quantity rice)) = 5 \<and>
   calculate_quantity_risk hummus = Inr 70 \<and>
   percentage_remaining_spec (quantity hummus) (initial_quantity hummus) = 80 \<and>
   quantity_step (percentage_remaining_spec (quantity hummus) (initial_quantity hummus)) = 50"
proof -
  have "calculate_quantity_risk rice = Inr 0"
    by (simp add: calculate_quantity_risk_def rice_def to_float_def)
  moreover have
    "quantity_step (percentage_remaining_spec (quantity rice) (initial_quantity rice)) = 5"
    "percentage_remaining_spec (quantity hummus) (initial_quantity hummus) = 80"
    "quantity_step (percentage_remaining_spec (quantity hummus) (initial_quantity hummus)) = 50"
    by (simp_all add: quantity_step_def percentage_remaining_spec_def rice_def hummus_def)
  ultimately show ?thesis
    using hummus_quantity_risk by simp
qed

text \<open>
  C1, amended: the quantity sub-risk is 0 when \<open>initialQuantity = 0\<close>; otherwise it is
  the step function of \<open>percentageRemaining\<close> as the code computes it in double
  precision (the floats of the two quantities divided, the quotient rounded, times 100,
  rounded again): above 80 gives 70, above 60 gives 50, above 40 gives 30, above 20
  gives 15, and anything else 5. The computation never fails.
\<close>

theorem quantity_risk_steps:
  "calculate_quantity_risk food_item =
     Inr (if initial_quantity food_item = 0 then 0
          else quantity_step
            (percentage_remaining_float (quantity food_item) (initial_quantity food_item)))"
  by (simp only: quantity_risk_closed to_float_eq_0_iff)

theorem quantity_risk_steps_witness:
  "calculate_quantity_risk milk = Inr 30 \<and> calculate_quantity_risk rice = Inr 0 \<and>
   calculate_quantity_risk hummus = Inr 70"
proof -
  have "quantity_step (percentage_remaining_float (quantity milk) (initial_quantity milk)) = 30"
    "quantity_step (percentage_remaining_float (quantity hummus) (initial_quantity hummus)) = 70"
    "initial_quantity milk \<noteq> 0" "initial_quantity hummus \<noteq> 0" "initial_quantity rice = 0"
    by code_simp+
  then show ?thesis
    using quantity_risk_steps [of milk] quantity_risk_steps [of rice]
      quantity_risk_steps [of hummus]
    by simp
qed

subsection \<open>C3: the score is always computed and lies in [0, 100]\<close>

text \<open>
  C3: for every item and every day, \<open>calculate_waste_risk\<close> returns a value (no division
  raises, whatever the quantities, the consumption logs and the expiry date are), and
  the value lies between 0 and 100.
\<close>

theorem waste_risk_total_and_bounded:
  "\<exists>r. calculate_waste_risk fsum today food_item = Inr r \<and> 0 \<le> r \<and> r \<le> 100"
proof (cases "status food_item = Active")
  case False
  then show ?thesis by (simp add: calculate_waste_risk_def)
next
  case True
  obtain n where "calculate_waste_risk fsum today food_item = Inr (of_int n)"
      "12 \<le> n" "n \<le> 92"
    using weighted_sum [OF True] by blast
  then show ?thesis by simp
qed

theorem waste_risk_total_and_bounded_witness:
  "(\<exists>r. calculate_waste_risk sum_left_to_right 100 undated_flour = Inr r \<and>
      0 \<le> r \<and> r \<le> 100) \<and>
   calculate_consumption_risk sum_left_to_right 100 undated_flour = Inr 100 \<and>
   calculate_quantity_risk undated_flour = Inr 0"
  using waste_risk_total_and_bounded [of sum_left_to_right 100 undated_flour]
  by (simp add: calculate_consumption_risk_def calculate_quantity_risk_def
      consumption_rate_def days_until_expiry_def and_then_def undated_flour_def
      to_float_eq_0_iff)

subsection \<open>C8: items that are not Active\<close>

text \<open>
  C8: an item whose status is not \<open>Active\<close> scores exactly 0, whatever its other fields
  (no sub-risk contributes to the result).
\<close>

theorem non_active_risk_zero:
  "status food_item \<noteq> Active \<Longrightarrow> calculate_waste_risk fsum today food_item = Inr 0"
  by (simp add: calculate_waste_risk_def)

theorem non_active_risk_zero_witness:
  "status eaten_bread \<noteq> Active \<and> calculate_waste_risk sum_left_to_right 100 eaten_bread = Inr 0"
proof -
  have h: "status eaten_bread \<noteq> Active"
    by (simp add: eaten_bread_def)
  show ?thesis
    using h non_active_risk_zero [OF h, of sum_left_to_right 100] by simp
qed

subsection \<open>C10: an Active item scores at least 12\<close>

text \<open>
  C10: the shelf-life sub-risk is at least 10, the consumption sub-risk at least 20 and
  the perishability sub-risk at least 20; so an \<open>Active\<close> item scores at least
  0.4 * 10 + 0.3 * 20 + 0.1 * 20 = 12, and a score of exactly 0 is returned only for an
  item that is not \<open>Active\<close>.
\<close>

theorem active_risk_floor:
  "10 \<le> calculate_shelf_life_risk today food_item \<and>
   (\<exists>c. calculate_consumption_risk fsum today food_item = Inr c \<and> 20 \<le> c) \<and>
   20 \<le> calculate_perishability_risk food_item \<and>
   (status food_item = Active \<longrightarrow>
      (\<exists>r. calculate_waste_risk fsum today food_item = Inr r \<and> 12 \<le> r)) \<and>
   (calculate_waste_risk fsum today food_item = Inr 0 \<longrightarrow> status food_item \<noteq> Active)"
proof -
  have s: "10 \<le> calculate_shelf_life_risk today food_item"
    using shelf_life_risk_range [of today food_item] by auto
  obtain c where c: "calculate_consumption_risk fsum today food_item = Inr c"
    and c20: "20 \<le> c"
    using consumption_risk_range [of fsum today food_item] by auto
  have p: "20 \<le> calculate_perishability_risk food_item"
    using perishability_risk_range [of food_item] by auto
  have active: "\<exists>r. calculate_waste_risk fsum today food_item = Inr r \<and> 12 \<le> r"
    if act: "status food_item = Active"
  proof -
    obtain n where "calculate_waste_risk fsum today food_item = Inr (of_int n)" "12 \<le> n"
      using weighted_sum [OF act] by blast
    then show ?thesis by simp
  qed
  have zero: "calculate_waste_risk fsum today food_item = Inr 0 \<Longrightarrow>
      status food_item \<noteq> Active"
    using active by auto
  from s c c20 p active zero show ?thesis by blast
qed

text \<open>The floor is reached: \<open>rice\<close> is \<open>Active\<close> and scores exactly 12.\<close>

theorem active_risk_floor_witness:
  "status rice = Active \<and> calculate_waste_risk sum_left_to_right 100 rice = Inr 12 \<and>
   (\<exists>r. calculate_waste_risk sum_left_to_right 100 rice = Inr r \<and> 12 \<le> r) \<and>
   calculate_waste_risk sum_left_to_right 100 eaten_bread = Inr 0 \<and>
   status eaten_bread \<noteq> Active"
proof -
  have a: "status rice = Active"
    by (simp add: rice_def)
  have z: "calculate_waste_risk sum_left_to_right 100 eaten_bread = Inr 0"
    by (simp add: calculate_waste_risk_def eaten_bread_def)
  have v: "calculate_waste_risk sum_left_to_right 100 rice = Inr 12"
    by (rule rice_score)
  show ?thesis
    using a z v active_risk_floor [of 100 rice sum_left_to_right]
      active_risk_floor [of 100 eaten_bread sum_left_to_right]
    by simp
qed

subsection \<open>C4: when an alert is raised\<close>

text \<open>
  C4: \<open>should_generate_alert\<close> holds exactly when the stored score reaches the threshold,
  or the days until expiry are known and at most 3 or negative; so it holds for every
  expired item, whatever its score. Calling it without a threshold uses 40.
\<close>

theorem should_generate_alert_iff:
  "should_generate_alert today food_item threshold =
     (waste_risk_score food_item \<ge> threshold \<or>
      (\<exists>d. days_until_expiry today food_item = Some d \<and> (d \<le> 3 \<or> d < 0))) \<and>
   (\<forall>d. days_until_expiry today food_item = Some d \<and> d < 0 \<longrightarrow>
      should_generate_alert today food_item threshold) \<and>
   should_generate_alert_default today food_item = should_generate_alert today food_item 40"
  by (auto simp add: should_generate_alert_def should_generate_alert_default_def Let_def
      split: option.split)

theorem should_generate_alert_iff_witness:
  "days_until_expiry 100 yoghurt = Some (- 1) \<and> waste_risk_score yoghurt < 40 \<and>
   should_generate_alert 100 yoghurt 40 \<and> should_generate_alert_default 100 yoghurt \<and>
   \<not> should_generate_alert_default 100 rice"
proof -
  have d: "days_until_expiry 100 yoghurt = Some (- 1)"
    by (simp add: days_until_expiry_def yoghurt_def)
  have r: "days_until_expiry 100 rice = Some 25"
    by (simp add: days_until_expiry_def rice_def)
  have s: "waste_risk_score yoghurt = 0" "waste_risk_score rice = 0"
    by (simp_all add: yoghurt_def rice_def)
  show ?thesis
    using should_generate_alert_iff [of 100 yoghurt 40]
      should_generate_alert_iff [of 100 rice 40] d r s
    by simp
qed

subsection \<open>C6: the consumption sub-risk\<close>

text \<open>
  C6, as stated, compares the quotient of the remaining quantity by the daily rate with
  1.5 times, once and 0.8 times the days until expiry. The code does so on floats.
  \<open>cheese\<close> has 2.1 left, one log of 1.4 over one day and one day to go: the decimals
  give 2.1 / 1.4 = 1.5, which is not above 1.5, so the stated rule gives 70; the double of
  the quotient of the two floats lies above 1.5 and the code gives 90, with either
  summation.
\<close>

theorem consumption_risk_float_counterexample:
  "days_until_expiry 100 cheese = Some 1 \<and>
   sum_list (consumption_logs cheese) / of_int (100 - purchase_date cheese) = 14 / 10 \<and>
   consumption_risk_spec (days_until_expiry 100 cheese) (14 / 10) (100 - purchase_date cheese)
     (quantity cheese) = 70 \<and>
   calculate_consumption_risk sum_left_to_right 100 cheese = Inr 90 \<and>
   calculate_consumption_risk sum_compensated 100 cheese = Inr 90"
proof -
  have "days_until_expiry 100 cheese = Some 1"
    "sum_list (consumption_logs cheese) / of_int (100 - purchase_date cheese) = 14 / 10"
    by (simp_all add: days_until_expiry_def cheese_def)
  moreover have "consumption_risk_spec (Some 1) (14 / 10) (100 - purchase_date cheese)
     (quantity cheese) = 70"
    by (simp add: consumption_risk_spec_def pace_step_def cheese_def)
  ultimately show ?thesis
    using cheese_consumption_risk by simp
qed

text \<open>
  C6, amended: for every item with a daily consumption rate that is not negative (the
  data model's range), the consumption sub-risk is 100 when the days until expiry are
  unknown or at most 0; otherwise, when the rate is 0, it is 80 if more than 3 days have
  passed since the purchase and 50 if not; otherwise it is 90, 70, 50 or 20 as
  \<open>daysToConsume\<close> exceeds 1.5 times, once, 0.8 times the days until expiry, or none of
  them, where \<open>daysToConsume = quantityRemaining / dailyConsumptionRate\<close> and the two
  products are computed in double precision (second conjunct). The first conjunct gives
  the code's result for any rate: for a negative one the code takes 999 days.
\<close>

theorem consumption_risk_cases:
  assumes "consumption_rate fsum today food_item = Inr rate"
  shows "calculate_consumption_risk fsum today food_item =
     Inr (case days_until_expiry today food_item of
            None \<Rightarrow> 100
          | Some d \<Rightarrow>
              if d \<le> 0 then 100
              else if rate = 0 then (if today - purchase_date food_item > 3 then 80 else 50)
              else pace_step_float
                (if rate > 0 then to_float (to_float (quantity food_item) / rate) else 999)
                d) \<and>
    (0 \<le> rate \<longrightarrow>
       calculate_consumption_risk fsum today food_item =
         Inr (consumption_risk_float (days_until_expiry today food_item) rate
                (today - purchase_date food_item) (quantity food_item)))"
  unfolding consumption_risk_closed [OF assms]
  by (auto simp add: consumption_risk_float_def split: option.split)

theorem consumption_risk_cases_witness:
  "consumption_rate sum_left_to_right 100 milk = Inr 1 \<and>
   calculate_consumption_risk sum_left_to_right 100 milk = Inr 20 \<and>
   consumption_rate sum_left_to_right 100 cheese = Inr (to_float (14 / 10)) \<and>
   calculate_consumption_risk sum_left_to_right 100 cheese = Inr 90"
proof -
  have vm: "consumption_risk_float (days_until_expiry 100 milk) 1
        (100 - purchase_date milk) (quantity milk) = 20"
    by code_simp
  have vc: "consumption_risk_float (days_until_expiry 100 cheese) (to_float (14 / 10))
        (100 - purchase_date cheese) (quantity cheese) = 90"
    by code_simp
  have pm: "(0::rat) \<le> 1"
    by simp
  have pc: "0 \<le> to_float (14 / 10)"
    by code_simp
  have "calculate_consumption_risk sum_left_to_right 100 milk = Inr 20"
    using consumption_risk_cases [OF milk_rate, THEN conjunct2, THEN mp, OF pm]
    by (simp only: vm)
  moreover have "calculate_consumption_risk sum_left_to_right 100 cheese = Inr 90"
    using consumption_risk_cases [OF cheese_rate(1), THEN conjunct2, THEN mp, OF pc]
    by (simp only: vc)
  ultimately show ?thesis
    using milk_rate cheese_rate(1) by (intro conjI)
qed

subsection \<open>C7: the shelf-life sub-risk does not grow with the days left\<close>

text \<open>
  C7: of two items (or two views of one item) with known days until expiry
  \<open>d1 \<le> d2\<close>, the one with \<open>d1\<close> days left has a shelf-life sub-risk at least as
  large. The sub-risk reads nothing but the days until expiry, so the other fields may
  be equal or not.
\<close>

theorem shelf_life_risk_antitone:
  assumes "days_until_expiry today1 item1 = Some d1"
    and "days_until_expiry today2 item2 = Some d2"
    and "d1 \<le> d2"
  shows "calculate_shelf_life_risk today2 item2 \<le> calculate_shelf_life_risk today1 item1"
  using assms by (simp add: calculate_shelf_life_risk_def)

theorem shelf_life_risk_antitone_witness:
  "days_until_expiry 100 milk = Some 4 \<and>
   days_until_expiry 100 (milk\<lparr>expiry_date := Some 111\<rparr>) = Some 11 \<and> (4::int) \<le> 11 \<and>
   calculate_shelf_life_risk 100 (milk\<lparr>expiry_date := Some 111\<rparr>)
     \<le> calculate_shelf_life_risk 100 milk \<and>
   calculate_shelf_life_risk 100 milk = 70 \<and>
   calculate_shelf_life_risk 100 (milk\<lparr>expiry_date := Some 111\<rparr>) = 30"
proof -
  have a: "days_until_expiry 100 milk = Some 4"
    by (simp add: days_until_expiry_def milk_def)
  have b: "days_until_expiry 100 (milk\<lparr>expiry_date := Some 111\<rparr>) = Some 11"
    by (simp add: days_until_expiry_def)
  have c: "(4::int) \<le> 11"
    by simp
  show ?thesis
    using a b shelf_life_risk_antitone [OF a b c]
    by (simp add: calculate_shelf_life_risk_def)
qed

subsection \<open>C2: the medium tier\<close>

text \<open>
  C2, as stated, promises a \<open>UseSoon\<close> entry of priority 2 for every medium-tier item,
  also when the days until expiry are unknown. \<open>tuna\<close> is \<open>Active\<close> and in the medium
  tier (its score is 50 and it has no expiry date), it is eaten at 1 a day, and its list
  holds the \<open>Preserve\<close> entry only.
\<close>

theorem medium_tier_unknown_expiry_counterexample:
  "status tuna = Active \<and> waste_risk_score tuna = 50 \<and> days_until_expiry 100 tuna = None \<and>
   consumption_rate sum_left_to_right 100 tuna = Inr 1 \<and>
   generate_recommendations sum_left_to_right 100 tuna =
     Inr [\<lparr>rec_type = Preserve, rec_priority = 2,
           rec_text = ''Preservation options: Freeze immediately if not using within 24 hours, Cook and use in salads or pasta''\<rparr>]"
  using tuna_recommendations tuna_rate
  by (simp add: tuna_def days_until_expiry_def)

text \<open>
  C2, amended: for every item in the medium tier (not in the urgent tier, and score at
  least 40 or days until expiry known and at most 7) whose days until expiry are known,
  the recommendation list contains the \<open>UseSoon\<close> entry of priority 2 whose text names
  the days remaining. When the days until expiry are unknown that entry is not in the
  list, and the \<open>UseSoon\<close> entries of the list are: the start-using entry (priority 2)
  alone when the daily consumption rate is 0; the slow-consumption entry (priority 2)
  alone when the rate is not 0 and below the double of 0.1; none otherwise.
\<close>

theorem medium_tier_use_soon:
  assumes not_urgent: "\<not> (waste_risk_score food_item \<ge> 70 \<or>
      (\<exists>d. days_until_expiry today food_item = Some d \<and> d \<le> 3))"
    and medium: "waste_risk_score food_item \<ge> 40 \<or>
      (\<exists>d. days_until_expiry today food_item = Some d \<and> d \<le> 7)"
  shows "\<exists>recs. generate_recommendations fsum today food_item = Inr recs \<and>
     (\<forall>d. days_until_expiry today food_item = Some d \<longrightarrow>
        plan_entry (item_name food_item) d \<in> set recs \<and>
        rec_type (plan_entry (item_name food_item) d) = UseSoon \<and>
        rec_priority (plan_entry (item_name food_item) d) = 2) \<and>
     (days_until_expiry today food_item = None \<longrightarrow>
        (\<forall>d. plan_entry (item_name food_item) d \<notin> set recs) \<and>
        filter (\<lambda>r. rec_type r = UseSoon) recs =
          (if consumption_rate fsum today food_item = Inr 0
           then [start_using_entry (item_name food_item)]
           else if (\<exists>rate. consumption_rate fsum today food_item = Inr rate \<and>
                      rate < to_float (1 / 10))
           then [slow_consumption_entry (item_name food_item)]
           else []))"
proof -
  define pace where "pace =
      (if consumption_rate fsum today food_item = Inr 0
       then [start_using_entry (item_name food_item)]
       else if (\<exists>rate. consumption_rate fsum today food_item = Inr rate \<and>
                  rate < to_float (1 / 10))
       then [slow_consumption_entry (item_name food_item)]
       else [])"
  define plan where "plan =
      (case days_until_expiry today food_item of
         Some d \<Rightarrow> [plan_entry (item_name food_item) d]
       | None \<Rightarrow> [])"
  have m: "get_medium_risk_recommendations fsum today food_item = Inr (plan @ pace)"
    unfolding medium_total plan_def pace_def by (rule refl)
  have tier: "(if waste_risk_score food_item \<ge> 70 \<or>
               (case days_until_expiry today food_item of Some d \<Rightarrow> d \<le> 3 | None \<Rightarrow> False)
            then Inr (get_urgent_recommendations today food_item)
            else if waste_risk_score food_item \<ge> 40 \<or>
               (case days_until_expiry today food_item of Some d \<Rightarrow> d \<le> 7 | None \<Rightarrow> False)
            then get_medium_risk_recommendations fsum today food_item
            else Inr (get_low_risk_recommendations food_item)) = Inr (plan @ pace)"
    using not_urgent medium m by (auto split: option.splits)
  define a where "a =
       (case map_of PRESERVATION_METHODS (category_name (category food_item)) of
          None \<Rightarrow> []
        | Some methods \<Rightarrow>
            [\<lparr>rec_type = Preserve, rec_priority = 2,
              rec_text = ''Preservation options: '' @ join '', '' (take 2 methods)\<rparr>])"
  define b where "b =
       (case map_of RECIPE_SUGGESTIONS (category_name (category food_item)) of
          None \<Rightarrow> []
        | Some suggestions \<Rightarrow>
            [\<lparr>rec_type = RecipeSuggestion, rec_priority = 3,
              rec_text = ''Try making: '' @ join '' or '' (take 2 suggestions)\<rparr>])"
  have a: "\<forall>r \<in> set a. rec_type r = Preserve"
    by (cases "map_of PRESERVATION_METHODS (category_name (category food_item))")
      (simp_all add: a_def)
  have b: "\<forall>r \<in> set b. rec_type r = RecipeSuggestion"
    by (cases "map_of RECIPE_SUGGESTIONS (category_name (category food_item))")
      (simp_all add: b_def)
  have gen: "generate_recommendations fsum today food_item = Inr ((plan @ pace) @ a @ b)"
    unfolding generate_recommendations_append [OF tier] a_def b_def by (rule refl)
  have pace_types: "\<forall>r \<in> set pace. rec_type r = UseSoon"
    by (simp add: pace_def start_using_entry_def slow_consumption_entry_def)
  have pace_plan: "plan_entry (item_name food_item) d \<notin> set pace" for d
    by (simp add: pace_def plan_entry_distinct)
  have plan_type: "rec_type (plan_entry (item_name food_item) d) = UseSoon"
    "rec_priority (plan_entry (item_name food_item) d) = 2" for d
    by (simp_all add: plan_entry_def)
  have others: "plan_entry (item_name food_item) d \<notin> set a"
    "plan_entry (item_name food_item) d \<notin> set b" for d
    using a b plan_type(1) [of d] by auto
  have keep: "filter (\<lambda>r. rec_type r = UseSoon) pace = pace"
    using pace_types by (simp add: filter_id_conv)
  have drop_a: "filter (\<lambda>r. rec_type r = UseSoon) a = []"
    using a by (simp add: filter_empty_conv)
  have drop_b: "filter (\<lambda>r. rec_type r = UseSoon) b = []"
    using b by (simp add: filter_empty_conv)
  show ?thesis
  proof (intro exI conjI allI impI)
    show "generate_recommendations fsum today food_item = Inr ((plan @ pace) @ a @ b)"
      by (rule gen)
  next
    fix d
    assume "days_until_expiry today food_item = Some d"
    then show "plan_entry (item_name food_item) d \<in> set ((plan @ pace) @ a @ b)"
      by (simp add: plan_def)
  next
    fix d
    show "rec_type (plan_entry (item_name food_item) d) = UseSoon"
      by (rule plan_type)
  next
    fix d
    show "rec_priority (plan_entry (item_name food_item) d) = 2"
      by (rule plan_type)
  next
    fix d
    assume "days_until_expiry today food_item = None"
    then show "plan_entry (item_name food_item) d \<notin> set ((plan @ pace) @ a @ b)"
      using pace_plan [of d] others [of d] by (simp add: plan_def)
  next
    assume "days_until_expiry today food_item = None"
    then have "filter (\<lambda>r. rec_type r = UseSoon) ((plan @ pace) @ a @ b) = pace"
      by (simp add: plan_def keep drop_a drop_b)
    then show "filter (\<lambda>r. rec_type r = UseSoon) ((plan @ pace) @ a @ b) =
        (if consumption_rate fsum today food_item = Inr 0
         then [start_using_entry (item_name food_item)]
         else if (\<exists>rate. consumption_rate fsum today food_item = Inr rate \<and>
                    rate < to_float (1 / 10))
         then [slow_consumption_entry (item_name food_item)]
         else [])"
      by (simp only: pace_def)
  qed
qed

text \<open>
  \<open>milk\<close> has 4 days left and gets the entry naming them; \<open>tuna\<close> has no expiry date and
  a rate of 1, and gets no \<open>UseSoon\<close> entry; \<open>olive_oil\<close> has no expiry date and one log
  of 0.3 over three days, which as a double is a rate below the double of 0.1, and gets
  the slow-consumption entry.
\<close>

theorem medium_tier_use_soon_witness:
  "waste_risk_score milk = 50 \<and> days_until_expiry 100 milk = Some 4 \<and>
   (\<exists>recs. generate_recommendations sum_left_to_right 100 milk = Inr recs \<and>
      \<lparr>rec_type = UseSoon, rec_priority = 2,
        rec_text = emoji_calendar @ '' Plan to use Milk within 4 days.''\<rparr> \<in> set recs) \<and>
   waste_risk_score tuna = 50 \<and> days_until_expiry 100 tuna = None \<and>
   consumption_rate sum_left_to_right 100 tuna = Inr 1 \<and>
   (\<exists>recs. generate_recommendations sum_left_to_right 100 tuna = Inr recs \<and>
      filter (\<lambda>r. rec_type r = UseSoon) recs = []) \<and>
   waste_risk_score olive_oil = 50 \<and> days_until_expiry 100 olive_oil = None \<and>
   (\<exists>recs. generate_recommendations sum_left_to_right 100 olive_oil = Inr recs \<and>
      filter (\<lambda>r. rec_type r = UseSoon) recs = [slow_consumption_entry ''Olive oil''])"
proof -
  have s: "waste_risk_score milk = 50"
    by (simp add: milk_def)
  have d: "days_until_expiry 100 milk = Some 4"
    by (simp add: days_until_expiry_def milk_def)
  have n: "\<not> (waste_risk_score milk \<ge> 70 \<or>
      (\<exists>d. days_until_expiry 100 milk = Some d \<and> d \<le> 3))"
    by (simp add: s d)
  have m: "waste_risk_score milk \<ge> 40 \<or>
      (\<exists>d. days_until_expiry 100 milk = Some d \<and> d \<le> 7)"
    by (simp add: s)
  have e: "plan_entry (item_name milk) 4 =
      \<lparr>rec_type = UseSoon, rec_priority = 2,
        rec_text = emoji_calendar @ '' Plan to use Milk within 4 days.''\<rparr>"
    by (simp add: plan_entry_def milk_def str_int_def str_nat.simps digit_char_def)
  have known: "\<exists>recs. generate_recommendations sum_left_to_right 100 milk = Inr recs \<and>
      \<lparr>rec_type = UseSoon, rec_priority = 2,
        rec_text = emoji_calendar @ '' Plan to use Milk within 4 days.''\<rparr> \<in> set recs"
    using medium_tier_use_soon [OF n m, of sum_left_to_right] d e by auto
  have s': "waste_risk_score tuna = 50"
    by (simp add: tuna_def)
  have d': "days_until_expiry 100 tuna = None"
    by (simp add: days_until_expiry_def tuna_def)
  have n': "\<not> (waste_risk_score tuna \<ge> 70 \<or>
      (\<exists>d. days_until_expiry 100 tuna = Some d \<and> d \<le> 3))"
    by (simp add: s' d')
  have m': "waste_risk_score tuna \<ge> 40 \<or>
      (\<exists>d. days_until_expiry 100 tuna = Some d \<and> d \<le> 7)"
    by (simp add: s')
  have unknown: "\<exists>recs. generate_recommendations sum_left_to_right 100 tuna = Inr recs \<and>
      filter (\<lambda>r. rec_type r = UseSoon) recs = []"
    using medium_tier_use_soon [OF n' m', of sum_left_to_right] d' tuna_rate tenth_below_one
    by auto
  have s'': "waste_risk_score olive_oil = 50"
    by (simp add: olive_oil_def)
  have d'': "days_until_expiry 100 olive_oil = None"
    by (simp add: days_until_expiry_def olive_oil_def)
  have n'': "\<not> (waste_risk_score olive_oil \<ge> 70 \<or>
      (\<exists>d. days_until_expiry 100 olive_oil = Some d \<and> d \<le> 3))"
    by (simp add: s'' d'')
  have m'': "waste_risk_score olive_oil \<ge> 40 \<or>
      (\<exists>d. days_until_expiry 100 olive_oil = Some d \<and> d \<le> 7)"
    by (simp add: s'')
  have i'': "item_name olive_oil = ''Olive oil''"
    by (simp add: olive_oil_def)
  have slow: "\<exists>recs. generate_recommendations sum_left_to_right 100 olive_oil = Inr recs \<and>
      filter (\<lambda>r. rec_type r = UseSoon) recs = [slow_consumption_entry ''Olive oil'']"
    using medium_tier_use_soon [OF n'' m'', of sum_left_to_right] d'' i''
      olive_oil_rate(1) olive_oil_rate(2) olive_oil_rate(3)
    by auto
  from s d known s' d' tuna_rate unknown s'' d'' slow show ?thesis
    by blast
qed

subsection \<open>C5: the alert message\<close>

text \<open>
  C5: \<open>get_alert_message\<close> returns the one message of the first rule that applies, in
  the order: expired (days known and negative), expires today (known and at most 1),
  expires in N days (known and at most 3), high risk (score at least 70), needs
  attention (score at least 40), and the status update otherwise. So when the days until
  expiry are known and at most 3 the message does not depend on the score.
\<close>

theorem alert_message_first_match:
  "get_alert_message today food_item =
     alert_text (item_name food_item)
       (alert_kind_spec (days_until_expiry today food_item) (waste_risk_score food_item)) \<and>
   (\<forall>d score. days_until_expiry today food_item = Some d \<and> d \<le> 3 \<longrightarrow>
      get_alert_message today (food_item\<lparr>waste_risk_score := score\<rparr>) =
      get_alert_message today food_item)"
proof -
  have first: "get_alert_message today food_item =
     alert_text (item_name food_item)
       (alert_kind_spec (days_until_expiry today food_item) (waste_risk_score food_item))"
    by (cases "days_until_expiry today food_item")
      (simp_all add: get_alert_message_def alert_kind_spec_def Let_def)
  have days: "days_until_expiry today (food_item\<lparr>waste_risk_score := score\<rparr>) =
      days_until_expiry today food_item" for score
    by (simp add: days_until_expiry_def)
  have second: "get_alert_message today (food_item\<lparr>waste_risk_score := score\<rparr>) =
      get_alert_message today food_item"
    if "days_until_expiry today food_item = Some d" "d \<le> 3" for d score
    using that by (simp add: get_alert_message_def Let_def days)
  from first second show ?thesis by blast
qed

theorem alert_message_first_match_witness:
  "days_until_expiry 100 yoghurt = Some (- 1) \<and>
   get_alert_message 100 yoghurt =
     ''Yoghurt has expired! Please check and dispose if spoiled.'' \<and>
   get_alert_message 100 (yoghurt\<lparr>waste_risk_score := 95\<rparr>) =
     ''Yoghurt has expired! Please check and dispose if spoiled.'' \<and>
   get_alert_message 100 milk = ''Milk needs attention. Plan to use soon.''"
proof -
  have d: "days_until_expiry 100 yoghurt = Some (- 1)"
    by (simp add: days_until_expiry_def yoghurt_def)
  have m: "days_until_expiry 100 milk = Some 4"
    by (simp add: days_until_expiry_def milk_def)
  have n: "item_name yoghurt = ''Yoghurt''" "item_name milk = ''Milk''"
    "waste_risk_score milk = 50"
    by (simp_all add: yoghurt_def milk_def)
  show ?thesis
    using alert_message_first_match [of 100 yoghurt] alert_message_first_match [of 100 milk]
      d m n
    by (simp add: alert_kind_spec_def)
qed

subsection \<open>C9: categories missing from a table\<close>

text \<open>
  C9: the recommendation list is always produced (no lookup fails). When the category has
  preservation methods, the list contains the \<open>Preserve\<close> entry of priority 2 built from
  the first two of them; when it has none, the list has no \<open>Preserve\<close> entry; when it
  has no recipes, the list has no \<open>RecipeSuggestion\<close> entry. So a category with
  preservation methods and no recipes gets the \<open>Preserve\<close> entry and no
  \<open>RecipeSuggestion\<close> entry.
\<close>

theorem preserve_without_recipe:
  "\<exists>recs. generate_recommendations fsum today food_item = Inr recs \<and>
     (\<forall>methods.
        map_of PRESERVATION_METHODS (category_name (category food_item)) = Some methods \<longrightarrow>
        \<lparr>rec_type = Preserve, rec_priority = 2,
          rec_text = ''Preservation options: '' @ join '', '' (take 2 methods)\<rparr> \<in> set recs) \<and>
     (map_of PRESERVATION_METHODS (category_name (category food_item)) = None \<longrightarrow>
        \<not> (\<exists>r \<in> set recs. rec_type r = Preserve)) \<and>
     (map_of RECIPE_SUGGESTIONS (category_name (category food_item)) = None \<longrightarrow>
        \<not> (\<exists>r \<in> set recs. rec_type r = RecipeSuggestion))"
proof -
  obtain tier where t: "(if waste_risk_score food_item \<ge> 70 \<or>
               (case days_until_expiry today food_item of Some d \<Rightarrow> d \<le> 3 | None \<Rightarrow> False)
            then Inr (get_urgent_recommendations today food_item)
            else if waste_risk_score food_item \<ge> 40 \<or>
               (case days_until_expiry today food_item of Some d \<Rightarrow> d \<le> 7 | None \<Rightarrow> False)
            then get_medium_risk_recommendations fsum today food_item
            else Inr (get_low_risk_recommendations food_item)) = Inr tier"
    and ty: "\<forall>r \<in> set tier. rec_type r = UseSoon \<or> rec_type r = Donate"
    using tier_total [of food_item today fsum] by blast
  show ?thesis
    unfolding generate_recommendations_append [OF t]
    using ty
    by (cases "map_of PRESERVATION_METHODS (category_name (category food_item))";
        cases "map_of RECIPE_SUGGESTIONS (category_name (category food_item))")
       auto
qed

theorem preserve_without_recipe_witness:
  "map_of PRESERVATION_METHODS (category_name (category tuna)) =
     Some [''Freeze immediately if not using within 24 hours'',
           ''Cook and use in salads or pasta'', ''Smoke or cure for preservation'',
           ''Store on ice in refrigerator''] \<and>
   map_of RECIPE_SUGGESTIONS (category_name (category tuna)) = None \<and>
   (\<exists>recs. generate_recommendations sum_left_to_right 100 tuna = Inr recs \<and>
      \<lparr>rec_type = Preserve, rec_priority = 2,
        rec_text = ''Preservation options: Freeze immediately if not using within 24 hours, Cook and use in salads or pasta''\<rparr>
        \<in> set recs \<and>
      \<not> (\<exists>r \<in> set recs. rec_type r = RecipeSuggestion))"
proof -
  have p: "map_of PRESERVATION_METHODS (category_name (category tuna)) =
     Some [''Freeze immediately if not using within 24 hours'',
           ''Cook and use in salads or pasta'', ''Smoke or cure for preservation'',
           ''Store on ice in refrigerator'']"
    by (simp add: PRESERVATION_METHODS_def tuna_def fish_def)
  have r: "map_of RECIPE_SUGGESTIONS (category_name (category tuna)) = None"
    by (simp add: RECIPE_SUGGESTIONS_def tuna_def fish_def)
  show ?thesis
    using preserve_without_recipe [of sum_left_to_right 100 tuna] p r by auto
qed

end
